theory Spec2Isabelle
  imports Main
begin

section \<open>The compose extension: data\<close>

text \<open>
  The class \<open>ComposeExtension\<close> reconciles what its collaborators detect into one status
  bar presentation, installs a compose binary on demand and regenerates a wrapper script.
  Its two fields are \<open>statusBarItem\<close> and \<open>currentInformation\<close>; everything else it
  touches belongs to collaborators: the detection service, the release client, the OS
  probe, the wrapper generator, the host API and Node's \<open>fs\<close> and \<open>path\<close> modules.
  A JavaScript exception (a rejected promise) is a value \<open>Inl e\<close> of the result.
\<close>

datatype error =
    ProbeError | NetworkError | NotFound | UnsupportedPlatform
  | DownloadError | FilesystemError | TypeError

text \<open>The three fields \<open>runChecks\<close> collects in \<open>statusBarChangesToApply\<close>.\<close>

record statusBarChanges =
  iconClass :: string
  tooltip :: string
  command :: string

text \<open>
  The host's status bar item: the same three fields and the item's \<open>text\<close> (here
  \<open>itemText\<close>).
\<close>

record statusBarItem = statusBarChanges +
  itemText :: string

text \<open>A release descriptor as the release client lists it; \<open>id_release\<close> is its \<open>id\<close>.\<close>

record release =
  id_release :: string
  label :: string

text \<open>A provider's container connection; \<open>status\<close> is what \<open>connection.status()\<close> returns.\<close>

record connection =
  name :: string
  socketPath :: string
  status :: string

text \<open>The filesystem: a path holds a regular file or a directory, with a permission mode.\<close>

datatype kind = RegularFile | Directory

record entry =
  kind :: kind
  content :: string
  mode :: nat

type_synonym fsys = "string \<rightharpoonup> entry"

text \<open>The calls made to the collaborators that act on files or resolve an asset, in order.\<close>

datatype call =
    Mkdir string
  | Chmod string nat
  | Generate connection string
  | GetReleaseAssetId string string string
  | DownloadReleaseAsset nat string

text \<open>
  The answers the collaborators give during one run; the class only calls them, so
  their answers are inputs. Each probe of the detection service returns a boolean or
  raises; the release client lists releases, resolves an asset id and downloads (\<open>download\<close> gives the bytes of an
  asset, or the failure of the transport); the
  OS probe answers three questions, which the class asks separately; \<open>resolve\<close> is
  Node's \<open>path.resolve\<close> on its list of segments; \<open>wrapperScript\<close> is the script the
  generator builds for a connection; \<open>mkdir_fault\<close> and \<open>chmod_fault\<close> say where the
  operating system refuses; new files and directories get \<open>newFileMode\<close> and
  \<open>newDirMode\<close>. In an install flow the probes are asked only by the re-check at its
  end, so their answers here are the answers they give then.
\<close>

record env =
  storagePath :: string
  resolve :: "string list \<Rightarrow> string"
  checkForDockerCompose :: "error + bool"
  checkDefaultSocketIsAlive :: "error + bool"
  checkStoragePath :: "error + bool"
  getSocketPath :: string
  getContainerConnections :: "connection list"
  isWindows :: bool
  isLinux :: bool
  isMac :: bool
  platform :: string
  arch :: string
  grabLatestsReleasesMetadata :: "error + release list"
  showQuickPick :: "release list \<Rightarrow> release option"
  getReleaseAssetId :: "string \<Rightarrow> string \<Rightarrow> string \<Rightarrow> error + nat"
  download :: "nat \<Rightarrow> error + string"
  wrapperScript :: "connection \<Rightarrow> string \<Rightarrow> error + string"
  mkdir_fault :: "string \<Rightarrow> error option"
  chmod_fault :: "string \<Rightarrow> error option"
  newFileMode :: nat
  newDirMode :: nat

text \<open>
  The state a run changes: the extension's two fields, the filesystem, the messages
  shown with \<open>showInformationMessage\<close> (oldest first) and the calls made.
\<close>

record state =
  statusBarItem :: "statusBarItem option"
  currentInformation :: "string option"
  fs :: fsys
  messages :: "string list"
  calls :: "call list"

section \<open>Constants of the class\<close>

definition COMPOSE_INSTALL_COMMAND :: string where
  "COMPOSE_INSTALL_COMMAND = ''compose.install''"

definition COMPOSE_CHECKS_COMMAND :: string where
  "COMPOSE_CHECKS_COMMAND = ''compose.checks''"

definition ICON_CHECK :: string where
  "ICON_CHECK = ''fa fa-check''"

definition ICON_DOWNLOAD :: string where
  "ICON_DOWNLOAD = ''fa fa-download''"

definition ICON_WARNING :: string where
  "ICON_WARNING = ''fa fa-exclamation-triangle''"

text \<open>The literal \<open>0o755\<close>: owner 7 (rwx), group 5 (r-x), other 5 (r-x).\<close>

definition mode_0o755 :: nat where
  "mode_0o755 = 7 * 64 + 5 * 8 + 5"

section \<open>Node's filesystem calls\<close>

text \<open>\<open>existsSync\<close>: something is at the path.\<close>

definition existsSync :: "string \<Rightarrow> state \<Rightarrow> bool" where
  "existsSync p s = (fs s p \<noteq> None)"

text \<open>
  \<open>promises.mkdir(p, { recursive: true })\<close>: no error when the directory is there;
  otherwise the directory is created unless the operating system refuses. Only the
  directory itself is recorded, not the parents created on the way.
\<close>

definition mkdir :: "env \<Rightarrow> string \<Rightarrow> state \<Rightarrow> (error + unit) \<times> state" where
  "mkdir env p s =
     (let s1 = s\<lparr>calls := calls s @ [Mkdir p]\<rparr> in
      case fs s p of
        Some e \<Rightarrow> (if kind e = Directory then (Inr (), s1) else (Inl FilesystemError, s1))
      | None \<Rightarrow>
          (case mkdir_fault env p of
             Some err \<Rightarrow> (Inl err, s1)
           | None \<Rightarrow>
               (Inr (), s1\<lparr>fs := (fs s)(p \<mapsto>
                  \<lparr>kind = Directory, content = [], mode = newDirMode env\<rparr>)\<rparr>)))"

text \<open>
  \<open>promises.chmod(p, m)\<close>: raises when nothing is at the path or the operating system
  refuses; otherwise the entry gets mode \<open>m\<close>.
\<close>

definition chmod :: "env \<Rightarrow> string \<Rightarrow> nat \<Rightarrow> state \<Rightarrow> (error + unit) \<times> state" where
  "chmod env p m s =
     (let s1 = s\<lparr>calls := calls s @ [Chmod p m]\<rparr> in
      case fs s p of
        None \<Rightarrow> (Inl FilesystemError, s1)
      | Some e \<Rightarrow>
          (case chmod_fault env p of
             Some err \<Rightarrow> (Inl err, s1)
           | None \<Rightarrow> (Inr (), s1\<lparr>fs := (fs s)(p \<mapsto> e\<lparr>mode := m\<rparr>)\<rparr>)))"

text \<open>
  Writing bytes to a path: a regular file with these bytes; an entry that was there
  keeps its mode, a new one gets the mode new files get.
\<close>

definition writeFile :: "env \<Rightarrow> string \<Rightarrow> string \<Rightarrow> fsys \<Rightarrow> fsys" where
  "writeFile env p bytes f =
     f(p \<mapsto> \<lparr>kind = RegularFile, content = bytes,
             mode = (case f p of Some e \<Rightarrow> mode e | None \<Rightarrow> newFileMode env)\<rparr>)"

section \<open>The collaborators that write files\<close>

text \<open>
  Modelled from the spec: \<open>ComposeWrapperGenerator.generate\<close> (compose-wrapper-generator
  is not among the sources). Section 4.3: given a connection it produces, at the
  destination path, a script, overwriting the one before; it has no failure modes
  beyond filesystem errors, which propagate.
\<close>

definition generate :: "env \<Rightarrow> connection \<Rightarrow> string \<Rightarrow> state \<Rightarrow> (error + unit) \<times> state" where
  "generate env c p s =
     (let s1 = s\<lparr>calls := calls s @ [Generate c p]\<rparr> in
      case wrapperScript env c p of
        Inl err \<Rightarrow> (Inl err, s1)
      | Inr script \<Rightarrow> (Inr (), s1\<lparr>fs := writeFile env p script (fs s)\<rparr>))"

text \<open>
  Modelled from the spec: \<open>ComposeGitHubReleases.downloadReleaseAsset\<close>
  (compose-github-releases is not among the sources). Sections 4.4 and 7: it downloads
  the bytes of the asset to the destination path and fails on a transport failure; a
  partial write must not corrupt an existing installation, and a failed download must
  not leave a file at the final destination path. So a download that succeeds leaves
  the bytes at the destination, and a download that fails leaves the filesystem as it
  was.
\<close>

definition downloadReleaseAsset :: "env \<Rightarrow> nat \<Rightarrow> string \<Rightarrow> state \<Rightarrow> (error + unit) \<times> state" where
  "downloadReleaseAsset env assetId destination s =
     (let s1 = s\<lparr>calls := calls s @ [DownloadReleaseAsset assetId destination]\<rparr> in
      case download env assetId of
        Inl err \<Rightarrow> (Inl err, s1)
      | Inr bytes \<Rightarrow> (Inr (), s1\<lparr>fs := writeFile env destination bytes (fs s)\<rparr>))"

section \<open>The methods of \<open>ComposeExtension\<close>\<close>

text \<open>\<open>makeExecutable\<close>: \<open>chmod 0o755\<close> on Linux and Mac, nothing elsewhere.\<close>

definition makeExecutable :: "env \<Rightarrow> string \<Rightarrow> state \<Rightarrow> (error + unit) \<times> state" where
  "makeExecutable env filePath s =
     (if isLinux env \<or> isMac env then chmod env filePath mode_0o755 s else (Inr (), s))"

text \<open>
  \<open>addComposeWrapper\<close>: ensure the bin folder, choose the file extension, let the
  generator write the script, make it executable.
\<close>

definition addComposeWrapper :: "env \<Rightarrow> connection \<Rightarrow> state \<Rightarrow> (error + unit) \<times> state" where
  "addComposeWrapper env c s =
     (let storageData = storagePath env;
          storageBinFolder = resolve env [storageData, ''bin''];
          fileExtension = (if isWindows env then ''.bat'' else '''');
          composeWrapperScript = resolve env [storageBinFolder, ''compose'' @ fileExtension]
      in case (if \<not> existsSync storageBinFolder s then mkdir env storageBinFolder s
               else (Inr (), s)) of
           (Inl err, s1) \<Rightarrow> (Inl err, s1)
         | (Inr _, s1) \<Rightarrow>
             (case generate env c composeWrapperScript s1 of
                (Inl err, s2) \<Rightarrow> (Inl err, s2)
              | (Inr _, s2) \<Rightarrow> makeExecutable env composeWrapperScript s2))"

text \<open>
  \<open>showCurrentInformation\<close> and \<open>notifyOnChecks\<close>. A JavaScript string is truthy when
  it is not empty.
\<close>

definition showCurrentInformation :: "state \<Rightarrow> state" where
  "showCurrentInformation s =
     (case currentInformation s of
        Some info \<Rightarrow> (if info \<noteq> [] then s\<lparr>messages := messages s @ [info]\<rparr> else s)
      | None \<Rightarrow> s)"

definition notifyOnChecks :: "bool \<Rightarrow> state \<Rightarrow> state" where
  "notifyOnChecks firstCheck s =
     (case currentInformation s of
        Some info \<Rightarrow> (if info \<noteq> [] \<and> \<not> firstCheck then showCurrentInformation s else s)
      | None \<Rightarrow> s)"

text \<open>The three texts \<open>runChecks\<close> builds from the storage path.\<close>

definition needsPathTooltip :: "env \<Rightarrow> string" where
  "needsPathTooltip env = getSocketPath env @ '' is not enabled. Need to use wrapper script''"

definition advisory :: "env \<Rightarrow> string" where
  "advisory env =
     ''Please add the compose wrapper bin folder to your PATH environment variable. Value is ''
     @ resolve env [storagePath env, ''bin'']
     @ ''. The script ''
     @ resolve env [storagePath env, ''bin'', ''compose'']
     @ '' will setup for you the DOCKER_HOST environment variable.''"

definition usableTooltip :: "env \<Rightarrow> string" where
  "usableTooltip env =
     ''Compose is installed and usable with '' @ resolve env [storagePath env, ''bin'', ''compose'']"

definition noEngineTooltip :: string where
  "noEngineTooltip =
     ''No running container engine. Unable to write a compose wrapper script that will set DOCKER_HOST in that case. Please start a container engine first.''"

text \<open>
  The block ``apply status bar changes'' of \<open>runChecks\<close>: the three fields are
  copied to the status bar item when there is one.
\<close>

definition applyStatusBarChanges :: "statusBarChanges \<Rightarrow> state \<Rightarrow> state" where
  "applyStatusBarChanges changes s =
     (case statusBarItem s of
        Some item \<Rightarrow>
          s\<lparr>statusBarItem := Some (item\<lparr>iconClass := iconClass changes,
                                      tooltip := tooltip changes,
                                      command := command changes\<rparr>)\<rparr>
      | None \<Rightarrow> s)"

text \<open>
  \<open>runChecks\<close>. Each \<open>await\<close> of the source is a case distinction on the collaborator's
  result: the method has no \<open>try\<close>, so \<open>Inl\<close> leaves it at once.
\<close>

definition runChecks :: "env \<Rightarrow> bool \<Rightarrow> state \<Rightarrow> (error + unit) \<times> state" where
  "runChecks env firstCheck s0 =
     (let s = s0\<lparr>currentInformation := None\<rparr>;
          statusBarChangesToApply =
            \<lparr>iconClass = '''', tooltip = '''', command = COMPOSE_CHECKS_COMMAND\<rparr>
      in case
           (case checkForDockerCompose env of
              Inl err \<Rightarrow> (Inl err, s)
            | Inr dockerComposeInstalled \<Rightarrow>
                if dockerComposeInstalled then
                  (case checkDefaultSocketIsAlive env of
                     Inl err \<Rightarrow> (Inl err, s)
                   | Inr compatibilityModeSetup \<Rightarrow>
                       if compatibilityModeSetup then
                         (Inr (statusBarChangesToApply
                                 \<lparr>iconClass := ICON_CHECK,
                                  tooltip := ''Compose is installed and DOCKER_HOST is reachable''\<rparr>), s)
                       else
                         (let connections = getContainerConnections env;
                              startedConnections =
                                filter (\<lambda>providerConnection. status providerConnection = ''started'')
                                  connections
                          in case startedConnections of
                               [] \<Rightarrow>
                                 (Inr (statusBarChangesToApply
                                         \<lparr>iconClass := ICON_WARNING, tooltip := noEngineTooltip\<rparr>), s)
                             | first # _ \<Rightarrow>
                                 (case addComposeWrapper env first s of
                                    (Inl err, s1) \<Rightarrow> (Inl err, s1)
                                  | (Inr _, s1) \<Rightarrow>
                                      (case checkStoragePath env of
                                         Inl err \<Rightarrow> (Inl err, s1)
                                       | Inr extensionBinFolderInPath \<Rightarrow>
                                           if \<not> extensionBinFolderInPath then
                                             (Inr (statusBarChangesToApply
                                                     \<lparr>iconClass := ICON_WARNING,
                                                      tooltip := needsPathTooltip env\<rparr>),
                                              s1\<lparr>currentInformation := Some (advisory env)\<rparr>)
                                           else
                                             (Inr (statusBarChangesToApply
                                                     \<lparr>iconClass := ICON_CHECK,
                                                      tooltip := usableTooltip env\<rparr>), s1)))))
                else
                  (Inr (statusBarChangesToApply
                          \<lparr>iconClass := ICON_DOWNLOAD, tooltip := ''Install Compose'',
                           command := COMPOSE_INSTALL_COMMAND\<rparr>), s))
         of
           (Inl err, s') \<Rightarrow> (Inl err, s')
         | (Inr changes, s') \<Rightarrow>
             (Inr (), notifyOnChecks firstCheck (applyStatusBarChanges changes s')))"

text \<open>
  \<open>installDockerCompose\<close>. Index 0 of an empty list is \<open>undefined\<close>, and reading
  \<open>.id\<close> of \<open>undefined\<close> raises a \<open>TypeError\<close>. The last statement calls
  \<open>runChecks(false)\<close> without \<open>await\<close>: the re-check runs, and if it raises, the
  install flow does not.
\<close>

definition installDockerCompose :: "env \<Rightarrow> state \<Rightarrow> (error + unit) \<times> state" where
  "installDockerCompose env s =
     (case grabLatestsReleasesMetadata env of
        Inl err \<Rightarrow> (Inl err, s)
      | Inr lastReleasesMetadata \<Rightarrow>
          (case (case showQuickPick env lastReleasesMetadata of
                   Some picked \<Rightarrow> Some picked
                 | None \<Rightarrow> (case lastReleasesMetadata of [] \<Rightarrow> None | r # _ \<Rightarrow> Some r)) of
             None \<Rightarrow> (Inl TypeError, s)
           | Some selectedRelease \<Rightarrow>
               (let s1 = s\<lparr>calls := calls s @
                            [GetReleaseAssetId (id_release selectedRelease) (platform env) (arch env)]\<rparr>
                in case getReleaseAssetId env (id_release selectedRelease) (platform env) (arch env) of
                     Inl err \<Rightarrow> (Inl err, s1)
                   | Inr assetId \<Rightarrow>
                       (let storageData = storagePath env;
                            storageBinFolder = resolve env [storageData, ''bin'']
                        in case (if \<not> existsSync storageBinFolder s1
                                 then mkdir env storageBinFolder s1 else (Inr (), s1)) of
                             (Inl err, s2) \<Rightarrow> (Inl err, s2)
                           | (Inr _, s2) \<Rightarrow>
                               (let fileExtension = (if isWindows env then ''.exe'' else '''');
                                    dockerComposeDownloadLocation =
                                      resolve env [storageBinFolder, ''docker-compose'' @ fileExtension]
                                in case downloadReleaseAsset env assetId
                                          dockerComposeDownloadLocation s2 of
                                     (Inl err, s3) \<Rightarrow> (Inl err, s3)
                                   | (Inr _, s3) \<Rightarrow>
                                       (case makeExecutable env dockerComposeDownloadLocation s3 of
                                          (Inl err, s4) \<Rightarrow> (Inl err, s4)
                                        | (Inr _, s4) \<Rightarrow>
                                            (let s5 = s4\<lparr>messages := messages s4 @
                                                      [''Docker Compose '' @ label selectedRelease
                                                       @ '' installed'']\<rparr>
                                             in (Inr (), snd (runChecks env False s5)))))))))"

section \<open>The specification's state machine and names for the statements\<close>

text \<open>
  The status enumeration of the specification and its transition function, written from
  the specification's words (section 4.2): the rules are tried from the top and the
  first that matches gives the status. The code has no such enumeration; the theorems
  compare what \<open>runChecks\<close> pushes with it.
\<close>

datatype InstallationStatus =
  NotInstalled | InstalledAndReachable | InstalledNeedsPathSetup | InstalledNeedsWrapper | NoRunningEngine

definition transition :: "bool \<Rightarrow> bool \<Rightarrow> bool \<Rightarrow> bool \<Rightarrow> InstallationStatus" where
  "transition hasCompose hasReachableDefaultSocket hasStartedConnection hasWrapperOnPath =
     (if \<not> hasCompose then NotInstalled
      else if hasReachableDefaultSocket then InstalledAndReachable
      else if \<not> hasStartedConnection then NoRunningEngine
      else if hasWrapperOnPath then InstalledAndReachable
      else InstalledNeedsPathSetup)"

text \<open>The connections \<open>runChecks\<close> keeps: those whose status is \<open>started\<close>.\<close>

definition startedConnections :: "env \<Rightarrow> connection list" where
  "startedConnections env = filter (\<lambda>c. status c = ''started'') (getContainerConnections env)"

text \<open>The first statement of \<open>runChecks\<close>: the advisory message is reset.\<close>

definition cleared :: "state \<Rightarrow> state" where
  "cleared s = s\<lparr>currentInformation := None\<rparr>"

text \<open>The end of a cycle that raised nothing: push the presentation, then notify.\<close>

definition finish :: "bool \<Rightarrow> statusBarChanges \<Rightarrow> state \<Rightarrow> (error + unit) \<times> state" where
  "finish firstCheck changes s = (Inr (), notifyOnChecks firstCheck (applyStatusBarChanges changes s))"

text \<open>
  The status of a cycle in which the three probes answer; the fourth input is whether a
  connection is started.
\<close>

definition statusOf :: "env \<Rightarrow> InstallationStatus option" where
  "statusOf env =
     (case (checkForDockerCompose env, checkDefaultSocketIsAlive env, checkStoragePath env) of
        (Inr hasCompose, Inr hasReachableDefaultSocket, Inr hasWrapperOnPath) \<Rightarrow>
          Some (transition hasCompose hasReachableDefaultSocket
                  (startedConnections env \<noteq> []) hasWrapperOnPath)
      | _ \<Rightarrow> None)"

text \<open>
  Control reaches the regeneration branch of \<open>runChecks\<close>: compose is installed, the
  default socket is not reachable and a connection is started.
\<close>

definition reachesRegeneration :: "env \<Rightarrow> bool" where
  "reachesRegeneration env =
     (checkForDockerCompose env = Inr True \<and> checkDefaultSocketIsAlive env = Inr False
      \<and> startedConnections env \<noteq> [])"

text \<open>
  The paths both \<open>addComposeWrapper\<close> and \<open>installDockerCompose\<close> compute, and the
  block they share: create the bin folder when nothing is at its path.
\<close>

definition binFolder :: "env \<Rightarrow> string" where
  "binFolder env = resolve env [storagePath env, ''bin'']"

definition wrapperPath :: "env \<Rightarrow> string" where
  "wrapperPath env =
     resolve env [binFolder env, ''compose'' @ (if isWindows env then ''.bat'' else [])]"

definition binaryPath :: "env \<Rightarrow> string" where
  "binaryPath env =
     resolve env [binFolder env, ''docker-compose'' @ (if isWindows env then ''.exe'' else [])]"

definition ensureBinFolder :: "env \<Rightarrow> state \<Rightarrow> (error + unit) \<times> state" where
  "ensureBinFolder env s =
     (if \<not> existsSync (binFolder env) s then mkdir env (binFolder env) s else (Inr (), s))"

text \<open>
  The release \<open>installDockerCompose\<close> goes on with: the user's pick, else index 0 of the
  list, which is \<open>undefined\<close> (\<open>None\<close>) when the list is empty.
\<close>

definition selectRelease :: "env \<Rightarrow> release list \<Rightarrow> release option" where
  "selectRelease env releases =
     (case showQuickPick env releases of
        Some picked \<Rightarrow> Some picked
      | None \<Rightarrow> (case releases of [] \<Rightarrow> None | r # _ \<Rightarrow> Some r))"

text \<open>The text of the success notification.\<close>

definition installedMessage :: "release \<Rightarrow> string" where
  "installedMessage r = ''Docker Compose '' @ label r @ '' installed''"

text \<open>Which calls write the wrapper script, and which change a permission mode.\<close>

fun isGenerate :: "call \<Rightarrow> bool" where
  "isGenerate (Generate c p) = True"
| "isGenerate other = False"

fun isChmod :: "call \<Rightarrow> bool" where
  "isChmod (Chmod p m) = True"
| "isChmod other = False"

text \<open>A regular file is at a path; the mode of what is at a path.\<close>

definition isFile :: "fsys \<Rightarrow> string \<Rightarrow> bool" where
  "isFile f p = (case f p of Some e \<Rightarrow> kind e = RegularFile | None \<Rightarrow> False)"

definition modeAt :: "fsys \<Rightarrow> string \<Rightarrow> nat option" where
  "modeAt f p = map_option mode (f p)"

text \<open>
  What every filesystem step of the extension keeps at a path \<open>q\<close>: a regular file stays
  a regular file, mode \<open>0o755\<close> stays, where the host is neither Linux nor Mac no
  \<open>chmod\<close> is called, and the calls made before are still recorded.
\<close>

definition keeps :: "env \<Rightarrow> string \<Rightarrow> state \<Rightarrow> state \<Rightarrow> bool" where
  "keeps env q s s1 =
     ((isFile (fs s) q \<longrightarrow> isFile (fs s1) q)
      \<and> (modeAt (fs s) q = Some mode_0o755 \<longrightarrow> modeAt (fs s1) q = Some mode_0o755)
      \<and> (\<not> (isLinux env \<or> isMac env) \<longrightarrow>
            filter isChmod (calls s1) = filter isChmod (calls s))
      \<and> set (calls s) \<subseteq> set (calls s1))"

section \<open>Concrete runs\<close>

text \<open>
  A Linux host as in the specification's scenarios C and D: compose is found, the default
  socket is not reachable, one connection is started, the bin folder is not on the
  path; the release client lists 2.0 before 1.0 and the user picks nothing. Paths are
  joined with a slash.
\<close>

fun joinPath :: "string list \<Rightarrow> string" where
  "joinPath [] = []"
| "joinPath [x] = x"
| "joinPath (x # y # ys) = x @ ''/'' @ joinPath (y # ys)"

definition linuxEnv :: env where
  "linuxEnv =
     \<lparr>storagePath = ''/storage'', resolve = joinPath,
      checkForDockerCompose = Inr True, checkDefaultSocketIsAlive = Inr False,
      checkStoragePath = Inr False, getSocketPath = ''/var/run/docker.sock'',
      getContainerConnections =
        [\<lparr>name = ''stopped'', socketPath = ''/run/a.sock'', status = ''stopped''\<rparr>,
         \<lparr>name = ''podman'', socketPath = ''/run/podman.sock'', status = ''started''\<rparr>],
      isWindows = False, isLinux = True, isMac = False,
      platform = ''linux'', arch = ''x64'',
      grabLatestsReleasesMetadata =
        Inr [\<lparr>id_release = ''v2'', label = ''2.0''\<rparr>, \<lparr>id_release = ''v1'', label = ''1.0''\<rparr>],
      showQuickPick = (\<lambda>items. None),
      getReleaseAssetId = (\<lambda>releaseId os ar. if releaseId = ''v2'' then Inr 2 else Inr 1),
      download = (\<lambda>assetId. Inr ''binary''),
      wrapperScript = (\<lambda>c p. Inr (''DOCKER_HOST='' @ socketPath c)),
      mkdir_fault = (\<lambda>p. None), chmod_fault = (\<lambda>p. None),
      newFileMode = 420, newDirMode = 493\<rparr>"

text \<open>The state \<open>activate\<close> starts the first cycle in: the item is created, nothing else is there.\<close>

definition createdItem :: statusBarItem where
  "createdItem =
     \<lparr>iconClass = [], tooltip = [], command = COMPOSE_CHECKS_COMMAND, itemText = ''Compose''\<rparr>"

definition activated :: state where
  "activated =
     \<lparr>statusBarItem = Some createdItem, currentInformation = None, fs = Map.empty,
      messages = [], calls = []\<rparr>"

text \<open>
  A state in which an earlier install left a binary and the bin folder.
\<close>

definition installedBefore :: state where
  "installedBefore =
     activated\<lparr>fs :=
       [''/storage/bin'' \<mapsto> \<lparr>kind = Directory, content = [], mode = 493\<rparr>,
        ''/storage/bin/docker-compose'' \<mapsto>
          \<lparr>kind = RegularFile, content = ''old binary'', mode = 493\<rparr>]\<rparr>"

text \<open>
  The state of \<open>installDockerCompose\<close> once it has asked for the asset id of a release.
\<close>

definition asked :: "env \<Rightarrow> release \<Rightarrow> state \<Rightarrow> state" where
  "asked env r s =
     s\<lparr>calls := calls s @ [GetReleaseAssetId (id_release r) (platform env) (arch env)]\<rparr>"


definition probeFailsEnv :: env where
  "probeFailsEnv = linuxEnv\<lparr>checkForDockerCompose := Inl ProbeError\<rparr>"

text \<open>An environment in which the operating system refuses every \<open>chmod\<close>.\<close>

definition chmodFailsEnv :: env where
  "chmodFailsEnv = linuxEnv\<lparr>chmod_fault := (\<lambda>p. Some FilesystemError)\<rparr>"

text \<open>The same host, but the OS probe says Windows.\<close>

definition windowsEnv :: env where
  "windowsEnv = linuxEnv\<lparr>isWindows := True, isLinux := False, platform := ''win32''\<rparr>"

text \<open>
  The Linux host and the Windows host with the bin folder on the path.
\<close>

definition linuxOnPathEnv :: env where
  "linuxOnPathEnv = linuxEnv\<lparr>checkStoragePath := Inr True\<rparr>"

definition windowsOnPathEnv :: env where
  "windowsOnPathEnv = windowsEnv\<lparr>checkStoragePath := Inr True\<rparr>"

section \<open>The branches of \<open>runChecks\<close>\<close>

lemma runChecks_probe_raises:
  "checkForDockerCompose env = Inl e \<Longrightarrow> runChecks env fc s = (Inl e, cleared s)"
  by (simp add: runChecks_def cleared_def)

lemma runChecks_socket_raises:
  "checkForDockerCompose env = Inr True \<Longrightarrow> checkDefaultSocketIsAlive env = Inl e \<Longrightarrow>
   runChecks env fc s = (Inl e, cleared s)"
  by (simp add: runChecks_def cleared_def)

lemma runChecks_not_installed:
  "checkForDockerCompose env = Inr False \<Longrightarrow>
   runChecks env fc s =
     finish fc \<lparr>iconClass = ICON_DOWNLOAD, tooltip = ''Install Compose'',
               command = COMPOSE_INSTALL_COMMAND\<rparr> (cleared s)"
  by (simp add: runChecks_def cleared_def finish_def)

lemma runChecks_reachable:
  "checkForDockerCompose env = Inr True \<Longrightarrow> checkDefaultSocketIsAlive env = Inr True \<Longrightarrow>
   runChecks env fc s =
     finish fc \<lparr>iconClass = ICON_CHECK,
               tooltip = ''Compose is installed and DOCKER_HOST is reachable'',
               command = COMPOSE_CHECKS_COMMAND\<rparr> (cleared s)"
  by (simp add: runChecks_def cleared_def finish_def)

lemma runChecks_no_engine:
  "checkForDockerCompose env = Inr True \<Longrightarrow> checkDefaultSocketIsAlive env = Inr False \<Longrightarrow>
   startedConnections env = [] \<Longrightarrow>
   runChecks env fc s =
     finish fc \<lparr>iconClass = ICON_WARNING, tooltip = noEngineTooltip,
               command = COMPOSE_CHECKS_COMMAND\<rparr> (cleared s)"
  by (simp add: runChecks_def cleared_def finish_def startedConnections_def)

lemma runChecks_regenerate:
  "checkForDockerCompose env = Inr True \<Longrightarrow> checkDefaultSocketIsAlive env = Inr False \<Longrightarrow>
   startedConnections env = c # cs \<Longrightarrow>
   runChecks env fc s =
     (case addComposeWrapper env c (cleared s) of
        (Inl e, s1) \<Rightarrow> (Inl e, s1)
      | (Inr u, s1) \<Rightarrow>
          (case checkStoragePath env of
             Inl e \<Rightarrow> (Inl e, s1)
           | Inr onPath \<Rightarrow>
               if onPath then
                 finish fc \<lparr>iconClass = ICON_CHECK, tooltip = usableTooltip env,
                           command = COMPOSE_CHECKS_COMMAND\<rparr> s1
               else
                 finish fc \<lparr>iconClass = ICON_WARNING, tooltip = needsPathTooltip env,
                           command = COMPOSE_CHECKS_COMMAND\<rparr>
                   (s1\<lparr>currentInformation := Some (advisory env)\<rparr>)))"
  by (simp add: runChecks_def cleared_def finish_def startedConnections_def
        split: prod.splits sum.splits)

section \<open>What a cycle leaves alone\<close>

lemma notifyOnChecks_frame [simp]:
  "statusBarItem (notifyOnChecks fc t) = statusBarItem t"
  "currentInformation (notifyOnChecks fc t) = currentInformation t"
  "fs (notifyOnChecks fc t) = fs t"
  "calls (notifyOnChecks fc t) = calls t"
  by (simp_all add: notifyOnChecks_def showCurrentInformation_def split: option.splits)

lemma applyStatusBarChanges_frame [simp]:
  "currentInformation (applyStatusBarChanges ch t) = currentInformation t"
  "fs (applyStatusBarChanges ch t) = fs t"
  "calls (applyStatusBarChanges ch t) = calls t"
  "messages (applyStatusBarChanges ch t) = messages t"
  by (simp_all add: applyStatusBarChanges_def split: option.splits)

lemma applyStatusBarChanges_item:
  "statusBarItem t = Some item \<Longrightarrow>
   statusBarItem (applyStatusBarChanges ch t) =
     Some (item\<lparr>iconClass := iconClass ch, tooltip := tooltip ch, command := command ch\<rparr>)"
  by (simp add: applyStatusBarChanges_def)

lemma finish_item:
  "statusBarItem t = Some item \<Longrightarrow>
   statusBarItem (snd (finish fc ch t)) =
     Some (item\<lparr>iconClass := iconClass ch, tooltip := tooltip ch, command := command ch\<rparr>)"
  by (simp add: finish_def applyStatusBarChanges_item)

lemma mkdir_frame:
  "mkdir env p s = (r, s1) \<Longrightarrow>
   statusBarItem s1 = statusBarItem s \<and> currentInformation s1 = currentInformation s
   \<and> messages s1 = messages s"
  by (auto simp: mkdir_def Let_def split: option.splits if_splits)

lemma chmod_frame:
  "chmod env p m s = (r, s1) \<Longrightarrow>
   statusBarItem s1 = statusBarItem s \<and> currentInformation s1 = currentInformation s
   \<and> messages s1 = messages s"
  by (auto simp: chmod_def Let_def split: option.splits)

lemma makeExecutable_frame:
  "makeExecutable env p s = (r, s1) \<Longrightarrow>
   statusBarItem s1 = statusBarItem s \<and> currentInformation s1 = currentInformation s
   \<and> messages s1 = messages s"
  by (auto simp: makeExecutable_def dest: chmod_frame split: if_splits)

lemma generate_frame:
  "generate env c p s = (r, s1) \<Longrightarrow>
   statusBarItem s1 = statusBarItem s \<and> currentInformation s1 = currentInformation s
   \<and> messages s1 = messages s"
  by (auto simp: generate_def Let_def split: sum.splits)

lemma addComposeWrapper_frame:
  assumes "addComposeWrapper env c s = (r, s1)"
  shows "statusBarItem s1 = statusBarItem s \<and> currentInformation s1 = currentInformation s
   \<and> messages s1 = messages s"
proof -
  let ?bin = "resolve env [storagePath env, ''bin'']"
  let ?p = "resolve env [?bin, ''compose'' @ (if isWindows env then ''.bat'' else [])]"
  obtain r1 t1 where m: "(if \<not> existsSync ?bin s then mkdir env ?bin s else (Inr (), s)) = (r1, t1)"
    by (cases "(if \<not> existsSync ?bin s then mkdir env ?bin s else (Inr (), s))") auto
  have f1: "statusBarItem t1 = statusBarItem s \<and> currentInformation t1 = currentInformation s
   \<and> messages t1 = messages s"
    using m mkdir_frame[of env ?bin s r1 t1] by (auto split: if_splits)
  obtain r2 t2 where g: "generate env c ?p t1 = (r2, t2)"
    by (cases "generate env c ?p t1") auto
  note f2 = generate_frame[OF g]
  obtain r3 t3 where x: "makeExecutable env ?p t2 = (r3, t3)"
    by (cases "makeExecutable env ?p t2") auto
  note f3 = makeExecutable_frame[OF x]
  have "s1 = t1 \<or> s1 = t2 \<or> s1 = t3"
    using assms m g x
    by (auto simp: addComposeWrapper_def Let_def split: sum.splits)
  then show ?thesis using f1 f2 f3 by auto
qed

section \<open>The steps of the two flows, with the names above\<close>

lemma addComposeWrapper_steps:
  "addComposeWrapper env c s =
     (case ensureBinFolder env s of
        (Inl e, s1) \<Rightarrow> (Inl e, s1)
      | (Inr u, s1) \<Rightarrow>
          (case generate env c (wrapperPath env) s1 of
             (Inl e, s2) \<Rightarrow> (Inl e, s2)
           | (Inr u, s2) \<Rightarrow> makeExecutable env (wrapperPath env) s2))"
  unfolding addComposeWrapper_def ensureBinFolder_def wrapperPath_def binFolder_def Let_def
  by (rule refl)

lemma installDockerCompose_steps:
  "installDockerCompose env s =
     (case grabLatestsReleasesMetadata env of
        Inl e \<Rightarrow> (Inl e, s)
      | Inr releases \<Rightarrow>
          (case selectRelease env releases of
             None \<Rightarrow> (Inl TypeError, s)
           | Some r \<Rightarrow>
               (case getReleaseAssetId env (id_release r) (platform env) (arch env) of
                  Inl e \<Rightarrow>
                    (Inl e, s\<lparr>calls := calls s @
                       [GetReleaseAssetId (id_release r) (platform env) (arch env)]\<rparr>)
                | Inr assetId \<Rightarrow>
                    (case ensureBinFolder env (s\<lparr>calls := calls s @
                             [GetReleaseAssetId (id_release r) (platform env) (arch env)]\<rparr>) of
                       (Inl e, s2) \<Rightarrow> (Inl e, s2)
                     | (Inr u, s2) \<Rightarrow>
                         (case downloadReleaseAsset env assetId (binaryPath env) s2 of
                            (Inl e, s3) \<Rightarrow> (Inl e, s3)
                          | (Inr u, s3) \<Rightarrow>
                              (case makeExecutable env (binaryPath env) s3 of
                                 (Inl e, s4) \<Rightarrow> (Inl e, s4)
                               | (Inr u, s4) \<Rightarrow>
                                   (Inr (), snd (runChecks env False
                                      (s4\<lparr>messages := messages s4 @ [installedMessage r]\<rparr>)))))))))"
  unfolding installDockerCompose_def ensureBinFolder_def binaryPath_def binFolder_def
        selectRelease_def installedMessage_def Let_def
  by (rule refl)

section \<open>What each filesystem step does\<close>

lemma keeps_trans: "keeps env q s s1 \<Longrightarrow> keeps env q s1 s2 \<Longrightarrow> keeps env q s s2"
  by (auto simp: keeps_def)

lemma ensureBinFolder_result:
  assumes "ensureBinFolder env s = (r, s1)"
  shows "statusBarItem s1 = statusBarItem s" "currentInformation s1 = currentInformation s"
    "messages s1 = messages s"
    "calls s1 = calls s @ (if existsSync (binFolder env) s then [] else [Mkdir (binFolder env)])"
    "fs s q = Some e \<Longrightarrow> fs s1 q = Some e"
    "r = Inl err \<Longrightarrow> fs s1 = fs s"
  using assms
  by (auto simp: ensureBinFolder_def existsSync_def mkdir_def Let_def
        split: if_splits option.splits)

lemma ensureBinFolder_keeps: "ensureBinFolder env s = (r, s1) \<Longrightarrow> keeps env q s s1"
  by (cases "q = binFolder env") (auto simp: keeps_def isFile_def modeAt_def ensureBinFolder_def existsSync_def mkdir_def
        Let_def split: if_splits option.splits)

lemma generate_result:
  assumes "generate env c p s = (r, s1)"
  shows "calls s1 = calls s @ [Generate c p]"
    "r = Inl err \<Longrightarrow> fs s1 = fs s"
    "r = Inr u \<Longrightarrow> isFile (fs s1) p"
  using assms
  by (auto simp: generate_def Let_def writeFile_def isFile_def split: sum.splits)

lemma generate_keeps: "generate env c p s = (r, s1) \<Longrightarrow> keeps env q s s1"
  by (cases "q = p") (auto simp: keeps_def isFile_def modeAt_def generate_def writeFile_def Let_def
        split: sum.splits option.splits)

lemma makeExecutable_result:
  assumes "makeExecutable env p s = (r, s1)"
  shows "calls s1 = calls s @ (if isLinux env \<or> isMac env then [Chmod p mode_0o755] else [])"
    "r = Inr u \<Longrightarrow> isLinux env \<or> isMac env \<Longrightarrow> modeAt (fs s1) p = Some mode_0o755"
    "r = Inl err \<Longrightarrow> fs s1 = fs s"
  using assms
  by (auto simp: makeExecutable_def chmod_def Let_def modeAt_def split: if_splits option.splits)

lemma makeExecutable_keeps: "makeExecutable env p s = (r, s1) \<Longrightarrow> keeps env q s s1"
  by (cases "q = p") (auto simp: keeps_def isFile_def modeAt_def makeExecutable_def chmod_def Let_def
        split: if_splits option.splits)

lemma downloadReleaseAsset_result:
  assumes "downloadReleaseAsset env a p s = (r, s1)"
  shows "calls s1 = calls s @ [DownloadReleaseAsset a p]"
    "statusBarItem s1 = statusBarItem s" "currentInformation s1 = currentInformation s"
    "messages s1 = messages s"
    "r = Inr u \<Longrightarrow> isFile (fs s1) p"
  using assms
  by (auto simp: downloadReleaseAsset_def Let_def writeFile_def isFile_def
        split: sum.splits option.splits)

lemma addComposeWrapper_keeps:
  assumes "addComposeWrapper env c s = (r, s')"
  shows "keeps env q s s'"
proof -
  obtain r1 s1 where e: "ensureBinFolder env s = (r1, s1)"
    by (cases "ensureBinFolder env s") auto
  obtain r2 s2 where g: "generate env c (wrapperPath env) s1 = (r2, s2)"
    by (cases "generate env c (wrapperPath env) s1") auto
  obtain r3 s3 where x: "makeExecutable env (wrapperPath env) s2 = (r3, s3)"
    by (cases "makeExecutable env (wrapperPath env) s2") auto
  have k1: "keeps env q s s1" by (rule ensureBinFolder_keeps[OF e])
  have k2: "keeps env q s s2" by (rule keeps_trans[OF k1 generate_keeps[OF g]])
  have k3: "keeps env q s s3" by (rule keeps_trans[OF k2 makeExecutable_keeps[OF x]])
  have "s' = s1 \<or> s' = s2 \<or> s' = s3"
    using assms e g x by (auto simp: addComposeWrapper_steps split: sum.splits)
  then show ?thesis using k1 k2 k3 by auto
qed

lemma addComposeWrapper_done:
  assumes "addComposeWrapper env c s = (Inr (), s')"
  shows "isFile (fs s') (wrapperPath env)"
    and "isLinux env \<or> isMac env \<Longrightarrow> modeAt (fs s') (wrapperPath env) = Some mode_0o755"
    and "filter isGenerate (calls s') = filter isGenerate (calls s) @ [Generate c (wrapperPath env)]"
    and "isLinux env \<or> isMac env \<Longrightarrow> Chmod (wrapperPath env) mode_0o755 \<in> set (calls s')"
proof -
  obtain r1 s1 where e: "ensureBinFolder env s = (r1, s1)"
    by (cases "ensureBinFolder env s") auto
  obtain r2 s2 where g: "generate env c (wrapperPath env) s1 = (r2, s2)"
    by (cases "generate env c (wrapperPath env) s1") auto
  obtain r3 s3 where x: "makeExecutable env (wrapperPath env) s2 = (r3, s3)"
    by (cases "makeExecutable env (wrapperPath env) s2") auto
  have ok: "r1 = Inr () \<and> r2 = Inr () \<and> r3 = Inr () \<and> s' = s3"
    using assms e g x by (auto simp: addComposeWrapper_steps split: sum.splits)
  have f2: "isFile (fs s2) (wrapperPath env)"
    using generate_result(3)[OF g] ok by simp
  show "isFile (fs s') (wrapperPath env)"
    using makeExecutable_keeps[OF x, of "wrapperPath env"] f2 ok by (simp add: keeps_def)
  show "isLinux env \<or> isMac env \<Longrightarrow> modeAt (fs s') (wrapperPath env) = Some mode_0o755"
    using makeExecutable_result(2)[OF x] ok by simp
  show "filter isGenerate (calls s') = filter isGenerate (calls s) @ [Generate c (wrapperPath env)]"
    using ensureBinFolder_result(4)[OF e] generate_result(1)[OF g] makeExecutable_result(1)[OF x] ok
    by simp
  show "isLinux env \<or> isMac env \<Longrightarrow> Chmod (wrapperPath env) mode_0o755 \<in> set (calls s')"
    using makeExecutable_result(1)[OF x] ok by simp
qed

lemma downloadReleaseAsset_keeps:
  "downloadReleaseAsset env a p s = (r, s1) \<Longrightarrow> keeps env q s s1"
  by (cases "q = p")
     (auto simp: keeps_def isFile_def modeAt_def downloadReleaseAsset_def writeFile_def Let_def
        split: sum.splits option.splits)

lemma download_raises:
  "download env a = Inl e \<Longrightarrow>
   downloadReleaseAsset env a p s = (Inl e, s\<lparr>calls := calls s @ [DownloadReleaseAsset a p]\<rparr>)"
  by (simp add: downloadReleaseAsset_def Let_def)

section \<open>The nine ways through a check cycle\<close>

lemma runChecks_cases:
  obtains
    (probeRaises) e where "checkForDockerCompose env = Inl e"
      "runChecks env fc s = (Inl e, cleared s)"
  | (notInstalled) "checkForDockerCompose env = Inr False"
      "runChecks env fc s =
         finish fc \<lparr>iconClass = ICON_DOWNLOAD, tooltip = ''Install Compose'',
                   command = COMPOSE_INSTALL_COMMAND\<rparr> (cleared s)"
  | (socketRaises) e where "checkForDockerCompose env = Inr True"
      "checkDefaultSocketIsAlive env = Inl e"
      "runChecks env fc s = (Inl e, cleared s)"
  | (reachable) "checkForDockerCompose env = Inr True"
      "checkDefaultSocketIsAlive env = Inr True"
      "runChecks env fc s =
         finish fc \<lparr>iconClass = ICON_CHECK,
                   tooltip = ''Compose is installed and DOCKER_HOST is reachable'',
                   command = COMPOSE_CHECKS_COMMAND\<rparr> (cleared s)"
  | (noEngine) "checkForDockerCompose env = Inr True"
      "checkDefaultSocketIsAlive env = Inr False" "startedConnections env = []"
      "runChecks env fc s =
         finish fc \<lparr>iconClass = ICON_WARNING, tooltip = noEngineTooltip,
                   command = COMPOSE_CHECKS_COMMAND\<rparr> (cleared s)"
  | (wrapperRaises) c cs e s1 where "checkForDockerCompose env = Inr True"
      "checkDefaultSocketIsAlive env = Inr False" "startedConnections env = c # cs"
      "addComposeWrapper env c (cleared s) = (Inl e, s1)"
      "runChecks env fc s = (Inl e, s1)"
  | (pathRaises) c cs e s1 where "checkForDockerCompose env = Inr True"
      "checkDefaultSocketIsAlive env = Inr False" "startedConnections env = c # cs"
      "addComposeWrapper env c (cleared s) = (Inr (), s1)"
      "checkStoragePath env = Inl e"
      "runChecks env fc s = (Inl e, s1)"
  | (onPath) c cs s1 where "checkForDockerCompose env = Inr True"
      "checkDefaultSocketIsAlive env = Inr False" "startedConnections env = c # cs"
      "addComposeWrapper env c (cleared s) = (Inr (), s1)"
      "checkStoragePath env = Inr True"
      "runChecks env fc s =
         finish fc \<lparr>iconClass = ICON_CHECK, tooltip = usableTooltip env,
                   command = COMPOSE_CHECKS_COMMAND\<rparr> s1"
  | (needsPath) c cs s1 where "checkForDockerCompose env = Inr True"
      "checkDefaultSocketIsAlive env = Inr False" "startedConnections env = c # cs"
      "addComposeWrapper env c (cleared s) = (Inr (), s1)"
      "checkStoragePath env = Inr False"
      "runChecks env fc s =
         finish fc \<lparr>iconClass = ICON_WARNING, tooltip = needsPathTooltip env,
                   command = COMPOSE_CHECKS_COMMAND\<rparr>
           (s1\<lparr>currentInformation := Some (advisory env)\<rparr>)"
proof (cases "checkForDockerCompose env")
  case (Inl e)
  then show ?thesis using probeRaises[of e] runChecks_probe_raises[of env e fc s] by simp
next
  case (Inr hasCompose)
  show ?thesis
  proof (cases hasCompose)
    case False
    then show ?thesis using Inr notInstalled runChecks_not_installed[of env fc s] by simp
  next
    case True
    then have hc: "checkForDockerCompose env = Inr True" using Inr by simp
    show ?thesis
    proof (cases "checkDefaultSocketIsAlive env")
      case (Inl e)
      then show ?thesis using hc socketRaises[of e] runChecks_socket_raises[of env e fc s] by simp
    next
      case (Inr alive)
      show ?thesis
      proof (cases alive)
        case True
        then show ?thesis using hc Inr reachable runChecks_reachable[of env fc s] by simp
      next
        case False
        then have re: "checkDefaultSocketIsAlive env = Inr False" using Inr by simp
        show ?thesis
        proof (cases "startedConnections env")
          case Nil
          then show ?thesis using hc re noEngine runChecks_no_engine[of env fc s] by simp
        next
          case (Cons c cs)
          note reg = runChecks_regenerate[OF hc re Cons, of fc s]
          obtain r1 s1 where w: "addComposeWrapper env c (cleared s) = (r1, s1)"
            by (cases "addComposeWrapper env c (cleared s)") auto
          show ?thesis
          proof (cases r1)
            case (Inl e)
            then show ?thesis using wrapperRaises[OF hc re Cons, of e s1] w reg by simp
          next
            case (Inr u)
            then have w': "addComposeWrapper env c (cleared s) = (Inr (), s1)" using w by simp
            show ?thesis
            proof (cases "checkStoragePath env")
              case (Inl e)
              then show ?thesis using pathRaises[OF hc re Cons w' Inl] w' reg by simp
            next
              case (Inr inPath)
              show ?thesis
              proof (cases inPath)
                case True
                then show ?thesis using onPath[OF hc re Cons w'] Inr w' reg by simp
              next
                case False
                then show ?thesis using needsPath[OF hc re Cons w'] Inr w' reg by simp
              qed
            qed
          qed
        qed
      qed
    qed
  qed
qed

lemma finish_result [simp]:
  "fst (finish fc ch t) = Inr ()"
  "fs (snd (finish fc ch t)) = fs t"
  "calls (snd (finish fc ch t)) = calls t"
  "currentInformation (snd (finish fc ch t)) = currentInformation t"
  by (simp_all add: finish_def)

lemma finish_messages:
  "messages (snd (finish fc ch t)) =
     messages t @ (case currentInformation t of
                     Some info \<Rightarrow> if info \<noteq> [] \<and> \<not> fc then [info] else []
                   | None \<Rightarrow> [])"
  by (simp add: finish_def notifyOnChecks_def showCurrentInformation_def split: option.splits)

lemma cleared_simps [simp]:
  "statusBarItem (cleared s) = statusBarItem s"
  "currentInformation (cleared s) = None"
  "fs (cleared s) = fs s"
  "messages (cleared s) = messages s"
  "calls (cleared s) = calls s"
  by (simp_all add: cleared_def)

lemma advisory_nonempty: "advisory env \<noteq> []"
  by (simp add: advisory_def)

section \<open>What a cycle does to the state\<close>

lemma statusOf_needsPath:
  "statusOf env = Some InstalledNeedsPathSetup \<longleftrightarrow>
     checkForDockerCompose env = Inr True \<and> checkDefaultSocketIsAlive env = Inr False
     \<and> startedConnections env \<noteq> [] \<and> checkStoragePath env = Inr False"
  by (auto simp: statusOf_def transition_def split: sum.splits)

lemma runChecks_keeps: "keeps env q s (snd (runChecks env fc s))"
proof (cases rule: runChecks_cases[of env fc s])
  case (wrapperRaises c cs e s1)
  then show ?thesis using addComposeWrapper_keeps[of env c "cleared s" "Inl e" s1 q]
    by (simp add: keeps_def)
next
  case (pathRaises c cs e s1)
  then show ?thesis using addComposeWrapper_keeps[of env c "cleared s" "Inr ()" s1 q]
    by (simp add: keeps_def)
next
  case (onPath c cs s1)
  then show ?thesis using addComposeWrapper_keeps[of env c "cleared s" "Inr ()" s1 q]
    by (simp add: keeps_def)
next
  case (needsPath c cs s1)
  then show ?thesis using addComposeWrapper_keeps[of env c "cleared s" "Inr ()" s1 q]
    by (simp add: keeps_def)
qed (simp_all add: keeps_def)

lemma runChecks_item_when_raising:
  assumes "fst (runChecks env fc s) = Inl e"
  shows "statusBarItem (snd (runChecks env fc s)) = statusBarItem s"
    and "messages (snd (runChecks env fc s)) = messages s"
    and "currentInformation (snd (runChecks env fc s)) = None"
proof -
  have "statusBarItem (snd (runChecks env fc s)) = statusBarItem s
      \<and> messages (snd (runChecks env fc s)) = messages s
      \<and> currentInformation (snd (runChecks env fc s)) = None"
  proof (cases rule: runChecks_cases[of env fc s])
    case (wrapperRaises c cs e s1)
    then show ?thesis using addComposeWrapper_frame[of env c "cleared s" "Inl e" s1] by simp
  next
    case (pathRaises c cs e s1)
    then show ?thesis using addComposeWrapper_frame[of env c "cleared s" "Inr ()" s1] by simp
  qed (use assms in simp_all)
  then show "statusBarItem (snd (runChecks env fc s)) = statusBarItem s"
    and "messages (snd (runChecks env fc s)) = messages s"
    and "currentInformation (snd (runChecks env fc s)) = None" by simp_all
qed

lemma runChecks_information:
  "currentInformation (snd (runChecks env fc s)) =
     (if fst (runChecks env fc s) = Inr () \<and> statusOf env = Some InstalledNeedsPathSetup
      then Some (advisory env) else None)"
proof (cases rule: runChecks_cases[of env fc s])
  case (wrapperRaises c cs e s1)
  then show ?thesis using addComposeWrapper_frame[of env c "cleared s" "Inl e" s1] by simp
next
  case (pathRaises c cs e s1)
  then show ?thesis using addComposeWrapper_frame[of env c "cleared s" "Inr ()" s1] by simp
next
  case (onPath c cs s1)
  then show ?thesis using addComposeWrapper_frame[of env c "cleared s" "Inr ()" s1]
    by (simp add: statusOf_needsPath)
next
  case (needsPath c cs s1)
  then show ?thesis by (simp add: statusOf_needsPath)
qed (simp_all add: statusOf_needsPath)

lemma runChecks_messages:
  "messages (snd (runChecks env fc s)) =
     messages s @
       (if \<not> fc \<and> fst (runChecks env fc s) = Inr () \<and> statusOf env = Some InstalledNeedsPathSetup
        then [advisory env] else [])"
proof (cases rule: runChecks_cases[of env fc s])
  case (wrapperRaises c cs e s1)
  then show ?thesis using addComposeWrapper_frame[of env c "cleared s" "Inl e" s1] by simp
next
  case (pathRaises c cs e s1)
  then show ?thesis using addComposeWrapper_frame[of env c "cleared s" "Inr ()" s1] by simp
next
  case (onPath c cs s1)
  then show ?thesis using addComposeWrapper_frame[of env c "cleared s" "Inr ()" s1]
    by (simp add: statusOf_needsPath finish_messages)
next
  case (needsPath c cs s1)
  then show ?thesis using addComposeWrapper_frame[of env c "cleared s" "Inr ()" s1]
    by (simp add: statusOf_needsPath finish_messages advisory_nonempty)
qed (simp_all add: statusOf_needsPath finish_messages)

section \<open>The seven ways through the install flow\<close>

lemma installDockerCompose_cases:
  obtains
    (listRaises) e where "grabLatestsReleasesMetadata env = Inl e"
      "installDockerCompose env s = (Inl e, s)"
  | (nothingSelected) releases where "grabLatestsReleasesMetadata env = Inr releases"
      "selectRelease env releases = None"
      "installDockerCompose env s = (Inl TypeError, s)"
  | (resolveRaises) releases r e where "grabLatestsReleasesMetadata env = Inr releases"
      "selectRelease env releases = Some r"
      "getReleaseAssetId env (id_release r) (platform env) (arch env) = Inl e"
      "installDockerCompose env s = (Inl e, asked env r s)"
  | (mkdirRaises) releases r a e s2 where "grabLatestsReleasesMetadata env = Inr releases"
      "selectRelease env releases = Some r"
      "getReleaseAssetId env (id_release r) (platform env) (arch env) = Inr a"
      "ensureBinFolder env (asked env r s) = (Inl e, s2)"
      "installDockerCompose env s = (Inl e, s2)"
  | (downloadRaises) releases r a s2 e s3 where "grabLatestsReleasesMetadata env = Inr releases"
      "selectRelease env releases = Some r"
      "getReleaseAssetId env (id_release r) (platform env) (arch env) = Inr a"
      "ensureBinFolder env (asked env r s) = (Inr (), s2)"
      "downloadReleaseAsset env a (binaryPath env) s2 = (Inl e, s3)"
      "installDockerCompose env s = (Inl e, s3)"
  | (chmodRaises) releases r a s2 s3 e s4 where "grabLatestsReleasesMetadata env = Inr releases"
      "selectRelease env releases = Some r"
      "getReleaseAssetId env (id_release r) (platform env) (arch env) = Inr a"
      "ensureBinFolder env (asked env r s) = (Inr (), s2)"
      "downloadReleaseAsset env a (binaryPath env) s2 = (Inr (), s3)"
      "makeExecutable env (binaryPath env) s3 = (Inl e, s4)"
      "installDockerCompose env s = (Inl e, s4)"
  | (installed) releases r a s2 s3 s4 where "grabLatestsReleasesMetadata env = Inr releases"
      "selectRelease env releases = Some r"
      "getReleaseAssetId env (id_release r) (platform env) (arch env) = Inr a"
      "ensureBinFolder env (asked env r s) = (Inr (), s2)"
      "downloadReleaseAsset env a (binaryPath env) s2 = (Inr (), s3)"
      "makeExecutable env (binaryPath env) s3 = (Inr (), s4)"
      "installDockerCompose env s =
         (Inr (), snd (runChecks env False (s4\<lparr>messages := messages s4 @ [installedMessage r]\<rparr>)))"
proof (cases "grabLatestsReleasesMetadata env")
  case (Inl e)
  then show ?thesis using listRaises[of e] by (simp add: installDockerCompose_steps)
next
  case (Inr releases)
  note grab = Inr
  show ?thesis
  proof (cases "selectRelease env releases")
    case None
    then show ?thesis using nothingSelected[OF grab] grab by (simp add: installDockerCompose_steps)
  next
    case (Some r)
    note sel = Some
    show ?thesis
    proof (cases "getReleaseAssetId env (id_release r) (platform env) (arch env)")
      case (Inl e)
      then show ?thesis using resolveRaises[OF grab sel Inl] grab sel
        by (simp add: installDockerCompose_steps asked_def)
    next
      case (Inr a)
      note res = Inr
      obtain r2 s2 where e: "ensureBinFolder env (asked env r s) = (r2, s2)"
        by (cases "ensureBinFolder env (asked env r s)") auto
      have eq2: "installDockerCompose env s =
          (case r2 of Inl e \<Rightarrow> (Inl e, s2)
           | Inr u \<Rightarrow>
              (case downloadReleaseAsset env a (binaryPath env) s2 of
                 (Inl e, s3) \<Rightarrow> (Inl e, s3)
               | (Inr u, s3) \<Rightarrow>
                   (case makeExecutable env (binaryPath env) s3 of
                      (Inl e, s4) \<Rightarrow> (Inl e, s4)
                    | (Inr u, s4) \<Rightarrow>
                        (Inr (), snd (runChecks env False
                           (s4\<lparr>messages := messages s4 @ [installedMessage r]\<rparr>))))))"
        using grab sel res e
        by (simp add: installDockerCompose_steps asked_def split: sum.splits)
      show ?thesis
      proof (cases r2)
        case (Inl err)
        then show ?thesis using mkdirRaises[OF grab sel res, of err s2] e eq2 by simp
      next
        case (Inr u)
        note r2 = Inr
        then have e': "ensureBinFolder env (asked env r s) = (Inr (), s2)" using e by simp
        obtain r3 s3 where d: "downloadReleaseAsset env a (binaryPath env) s2 = (r3, s3)"
          by (cases "downloadReleaseAsset env a (binaryPath env) s2") auto
        show ?thesis
        proof (cases r3)
          case (Inl err)
          then show ?thesis using downloadRaises[OF grab sel res e', of err s3] d eq2 r2 by simp
        next
          case (Inr u3)
          then have d': "downloadReleaseAsset env a (binaryPath env) s2 = (Inr (), s3)"
            using d by simp
          obtain r4 s4 where x: "makeExecutable env (binaryPath env) s3 = (r4, s4)"
            by (cases "makeExecutable env (binaryPath env) s3") auto
          show ?thesis
          proof (cases r4)
            case (Inl err)
            then show ?thesis using chmodRaises[OF grab sel res e' d', of err s4] x eq2 d' r2
              by simp
          next
            case (Inr u4)
            then show ?thesis using installed[OF grab sel res e' d', of s4] x eq2 d' r2
              by simp
          qed
        qed
      qed
    qed
  qed
qed

lemma asked_simps [simp]:
  "statusBarItem (asked env r s) = statusBarItem s"
  "currentInformation (asked env r s) = currentInformation s"
  "fs (asked env r s) = fs s"
  "messages (asked env r s) = messages s"
  "calls (asked env r s) = calls s @ [GetReleaseAssetId (id_release r) (platform env) (arch env)]"
  by (simp_all add: asked_def)

section \<open>Raising and completing\<close>

lemma installDockerCompose_raising:
  assumes "fst (installDockerCompose env s) = Inl e"
  shows "statusBarItem (snd (installDockerCompose env s)) = statusBarItem s
     \<and> messages (snd (installDockerCompose env s)) = messages s
     \<and> currentInformation (snd (installDockerCompose env s)) = currentInformation s"
proof (cases rule: installDockerCompose_cases[of env s])
  case (mkdirRaises releases r a e s2)
  then show ?thesis using ensureBinFolder_result(1-3)[of env "asked env r s" "Inl e" s2] by simp
next
  case (downloadRaises releases r a s2 e s3)
  then show ?thesis
    using ensureBinFolder_result(1-3)[of env "asked env r s" "Inr ()" s2]
      downloadReleaseAsset_result(2-4)[of env a "binaryPath env" s2 "Inl e" s3] by simp
next
  case (chmodRaises releases r a s2 s3 e s4)
  then show ?thesis
    using ensureBinFolder_result(1-3)[of env "asked env r s" "Inr ()" s2]
      downloadReleaseAsset_result(2-4)[of env a "binaryPath env" s2 "Inr ()" s3]
      makeExecutable_frame[of env "binaryPath env" s3 "Inl e" s4] by simp
qed (use assms in simp_all)

lemma installDockerCompose_completes:
  assumes "fst (installDockerCompose env s) = Inr ()"
  obtains releases r a s2 s3 s4 where
    "grabLatestsReleasesMetadata env = Inr releases"
    "selectRelease env releases = Some r"
    "getReleaseAssetId env (id_release r) (platform env) (arch env) = Inr a"
    "ensureBinFolder env (asked env r s) = (Inr (), s2)"
    "downloadReleaseAsset env a (binaryPath env) s2 = (Inr (), s3)"
    "makeExecutable env (binaryPath env) s3 = (Inr (), s4)"
    "installDockerCompose env s =
       (Inr (), snd (runChecks env False (s4\<lparr>messages := messages s4 @ [installedMessage r]\<rparr>)))"
  using assms by (cases rule: installDockerCompose_cases[of env s]) simp_all

lemma runChecks_raises_iff:
  "(checkForDockerCompose env = Inl e \<longrightarrow> fst (runChecks env fc s) = Inl e)
   \<and> (checkForDockerCompose env = Inr True \<and> checkDefaultSocketIsAlive env = Inl e
        \<longrightarrow> fst (runChecks env fc s) = Inl e)
   \<and> (reachesRegeneration env
        \<and> fst (addComposeWrapper env (hd (startedConnections env)) (cleared s)) = Inl e
        \<longrightarrow> fst (runChecks env fc s) = Inl e)
   \<and> (reachesRegeneration env
        \<and> fst (addComposeWrapper env (hd (startedConnections env)) (cleared s)) = Inr ()
        \<and> checkStoragePath env = Inl e
        \<longrightarrow> fst (runChecks env fc s) = Inl e)"
  by (cases rule: runChecks_cases[of env fc s]) (simp_all add: reachesRegeneration_def)

section \<open>An install flow that completes\<close>

lemma keepsD:
  assumes "keeps env q s s1"
  shows "isFile (fs s) q \<Longrightarrow> isFile (fs s1) q"
    and "modeAt (fs s) q = Some mode_0o755 \<Longrightarrow> modeAt (fs s1) q = Some mode_0o755"
    and "\<not> (isLinux env \<or> isMac env) \<Longrightarrow> filter isChmod (calls s1) = filter isChmod (calls s)"
    and "x \<in> set (calls s) \<Longrightarrow> x \<in> set (calls s1)"
  using assms by (auto simp: keeps_def)

lemma calls_kept:
  "ensureBinFolder env s = (r, s1) \<Longrightarrow> x \<in> set (calls s) \<Longrightarrow> x \<in> set (calls s1)"
  "downloadReleaseAsset env a p s = (r, s1) \<Longrightarrow> x \<in> set (calls s) \<Longrightarrow> x \<in> set (calls s1)"
  "makeExecutable env p s = (r, s1) \<Longrightarrow> x \<in> set (calls s) \<Longrightarrow> x \<in> set (calls s1)"
  "x \<in> set (calls s) \<Longrightarrow> x \<in> set (calls (snd (runChecks env fc s)))"
proof -
  show "x \<in> set (calls s1)" if "ensureBinFolder env s = (r, s1)" "x \<in> set (calls s)"
    by (rule keepsD(4)[OF ensureBinFolder_keeps[OF that(1)] that(2)])
  show "x \<in> set (calls s1)" if "downloadReleaseAsset env a p s = (r, s1)" "x \<in> set (calls s)"
    by (rule keepsD(4)[OF downloadReleaseAsset_keeps[OF that(1)] that(2)])
  show "x \<in> set (calls s1)" if "makeExecutable env p s = (r, s1)" "x \<in> set (calls s)"
    by (rule keepsD(4)[OF makeExecutable_keeps[OF that(1)] that(2)])
  show "x \<in> set (calls (snd (runChecks env fc s)))" if "x \<in> set (calls s)"
    by (rule keepsD(4)[OF runChecks_keeps that])
qed

lemma installDockerCompose_installed:
  assumes "fst (installDockerCompose env s) = Inr ()"
  obtains releases r a s4 where
    "grabLatestsReleasesMetadata env = Inr releases"
    "selectRelease env releases = Some r"
    "getReleaseAssetId env (id_release r) (platform env) (arch env) = Inr a"
    "keeps env q (asked env r s) s4"
    "GetReleaseAssetId (id_release r) (platform env) (arch env) \<in> set (calls s4)"
    "DownloadReleaseAsset a (binaryPath env) \<in> set (calls s4)"
    "isFile (fs s4) (binaryPath env)"
    "isLinux env \<or> isMac env \<Longrightarrow> modeAt (fs s4) (binaryPath env) = Some mode_0o755"
    "isLinux env \<or> isMac env \<Longrightarrow> Chmod (binaryPath env) mode_0o755 \<in> set (calls s4)"
    "messages s4 = messages s"
    "installDockerCompose env s =
       (Inr (), snd (runChecks env False (s4\<lparr>messages := messages s4 @ [installedMessage r]\<rparr>)))"
proof -
  obtain releases r a s2 s3 s4 where
    g: "grabLatestsReleasesMetadata env = Inr releases"
    and sel: "selectRelease env releases = Some r"
    and res: "getReleaseAssetId env (id_release r) (platform env) (arch env) = Inr a"
    and e: "ensureBinFolder env (asked env r s) = (Inr (), s2)"
    and d: "downloadReleaseAsset env a (binaryPath env) s2 = (Inr (), s3)"
    and x: "makeExecutable env (binaryPath env) s3 = (Inr (), s4)"
    and eq: "installDockerCompose env s =
       (Inr (), snd (runChecks env False (s4\<lparr>messages := messages s4 @ [installedMessage r]\<rparr>)))"
    using assms by (rule installDockerCompose_completes)
  have k2: "keeps env q (asked env r s) s2" by (rule ensureBinFolder_keeps[OF e])
  have k3: "keeps env q s2 s3" by (rule downloadReleaseAsset_keeps[OF d])
  have k4: "keeps env q s3 s4" by (rule makeExecutable_keeps[OF x])
  have k: "keeps env q (asked env r s) s4"
    by (rule keeps_trans[OF keeps_trans[OF k2 k3] k4])
  have c1: "GetReleaseAssetId (id_release r) (platform env) (arch env) \<in> set (calls s4)"
    using keepsD(4)[OF k, of "GetReleaseAssetId (id_release r) (platform env) (arch env)"]
    by simp
  have "DownloadReleaseAsset a (binaryPath env) \<in> set (calls s3)"
    using downloadReleaseAsset_result(1)[OF d] by simp
  then have c2: "DownloadReleaseAsset a (binaryPath env) \<in> set (calls s4)"
    using makeExecutable_keeps[OF x, of "binaryPath env"] by (auto simp: keeps_def)
  have "isFile (fs s3) (binaryPath env)"
    using downloadReleaseAsset_result(5)[OF d] by simp
  then have f: "isFile (fs s4) (binaryPath env)"
    using makeExecutable_keeps[OF x, of "binaryPath env"] by (simp add: keeps_def)
  have m: "isLinux env \<or> isMac env \<Longrightarrow> modeAt (fs s4) (binaryPath env) = Some mode_0o755"
    using makeExecutable_result(2)[OF x] by simp
  have ch: "isLinux env \<or> isMac env \<Longrightarrow> Chmod (binaryPath env) mode_0o755 \<in> set (calls s4)"
    using makeExecutable_result(1)[OF x] by simp
  have msg: "messages s4 = messages s"
    using ensureBinFolder_result(3)[OF e] downloadReleaseAsset_result(4)[OF d]
      makeExecutable_frame[OF x] by simp
  show ?thesis using that[OF g sel res k c1 c2 f m ch msg eq] by blast
qed

section \<open>What an install flow that raises leaves\<close>


lemma ensureBinFolder_other:
  "ensureBinFolder env s = (r, s1) \<Longrightarrow> q \<noteq> binFolder env \<Longrightarrow> fs s1 q = fs s q"
  by (auto simp: ensureBinFolder_def existsSync_def mkdir_def Let_def
        split: if_splits option.splits)

lemma downloadReleaseAsset_other:
  "downloadReleaseAsset env a p s = (r, s1) \<Longrightarrow> q \<noteq> p \<Longrightarrow> fs s1 q = fs s q"
  by (auto simp: downloadReleaseAsset_def writeFile_def Let_def split: sum.splits)

lemma installDockerCompose_raising_files:
  assumes "fst (installDockerCompose env s) = Inl e"
  shows "q \<noteq> binFolder env \<Longrightarrow> q \<noteq> binaryPath env \<Longrightarrow>
           fs (snd (installDockerCompose env s)) q = fs s q"
    and "q \<noteq> binaryPath env \<Longrightarrow> fs s q = Some old \<Longrightarrow>
           fs (snd (installDockerCompose env s)) q = Some old"
proof -
  have "(q \<noteq> binFolder env \<longrightarrow> q \<noteq> binaryPath env \<longrightarrow>
           fs (snd (installDockerCompose env s)) q = fs s q)
      \<and> (q \<noteq> binaryPath env \<longrightarrow> fs s q = Some old \<longrightarrow>
           fs (snd (installDockerCompose env s)) q = Some old)"
  proof (cases rule: installDockerCompose_cases[of env s])
    case (mkdirRaises releases r a e s2)
    then show ?thesis
      using ensureBinFolder_result(6)[OF mkdirRaises(4), of e] by simp
  next
    case (downloadRaises releases r a s2 e s3)
    then show ?thesis
      using ensureBinFolder_other[OF downloadRaises(4), of q]
        ensureBinFolder_result(5)[OF downloadRaises(4), of q old]
        downloadReleaseAsset_other[OF downloadRaises(5), of q] by simp
  next
    case (chmodRaises releases r a s2 s3 e s4)
    then show ?thesis
      using ensureBinFolder_other[OF chmodRaises(4), of q]
        ensureBinFolder_result(5)[OF chmodRaises(4), of q old]
        downloadReleaseAsset_other[OF chmodRaises(5), of q]
        makeExecutable_result(3)[OF chmodRaises(6), of e] by simp
  qed (use assms in simp_all)
  then show "q \<noteq> binFolder env \<Longrightarrow> q \<noteq> binaryPath env \<Longrightarrow>
           fs (snd (installDockerCompose env s)) q = fs s q"
    and "q \<noteq> binaryPath env \<Longrightarrow> fs s q = Some old \<Longrightarrow>
           fs (snd (installDockerCompose env s)) q = Some old" by simp_all
qed

lemma installDockerCompose_raising_binary:
  assumes "fst (installDockerCompose env s) = Inl e"
  shows "(\<forall>q old. fs s q = Some old \<longrightarrow> fs (snd (installDockerCompose env s)) q = Some old)
     \<or> (\<exists>releases r a s2 s3.
           grabLatestsReleasesMetadata env = Inr releases
           \<and> selectRelease env releases = Some r
           \<and> getReleaseAssetId env (id_release r) (platform env) (arch env) = Inr a
           \<and> ensureBinFolder env (asked env r s) = (Inr (), s2)
           \<and> downloadReleaseAsset env a (binaryPath env) s2 = (Inr (), s3)
           \<and> fst (makeExecutable env (binaryPath env) s3) = Inl e)"
proof (cases rule: installDockerCompose_cases[of env s])
  case (mkdirRaises releases r a e s2)
  then show ?thesis
    using ensureBinFolder_result(6)[OF mkdirRaises(4), of e] by simp
next
  case (downloadRaises releases r a s2 e' s3)
  have "fs s3 = fs s2"
    using downloadRaises(5) by (auto simp: downloadReleaseAsset_def Let_def split: sum.splits)
  then have "\<forall>q old. fs s q = Some old \<longrightarrow> fs s3 q = Some old"
    using ensureBinFolder_result(5)[OF downloadRaises(4)] by simp
  then show ?thesis using downloadRaises by simp
next
  case (chmodRaises releases r a s2 s3 e' s4)
  then have "e' = e" using assms by simp
  then show ?thesis using chmodRaises by auto
qed (use assms in simp_all)

section \<open>The concrete Linux run\<close>

lemma linux_started: "startedConnections linuxEnv =
   [\<lparr>name = ''podman'', socketPath = ''/run/podman.sock'', status = ''started''\<rparr>]"
  by (simp add: startedConnections_def linuxEnv_def)

lemma linux_wrapper:
  "fst (addComposeWrapper linuxEnv c (cleared activated)) = Inr ()"
  by (simp add: addComposeWrapper_def linuxEnv_def cleared_def activated_def existsSync_def
     mkdir_def generate_def makeExecutable_def chmod_def writeFile_def Let_def mode_0o755_def)

lemma linux_probes:
  "checkForDockerCompose linuxEnv = Inr True"
  "checkDefaultSocketIsAlive linuxEnv = Inr False"
  "checkStoragePath linuxEnv = Inr False"
  by (simp_all add: linuxEnv_def)

lemma linux_cycle: "fst (runChecks linuxEnv fc activated) = Inr ()"
  using linux_wrapper[of "\<lparr>name = ''podman'', socketPath = ''/run/podman.sock'', status = ''started''\<rparr>"]
  by (auto simp: runChecks_regenerate[OF linux_probes(1) linux_probes(2) linux_started]
        linux_probes finish_def split: prod.splits sum.splits)

lemma linux_status: "statusOf linuxEnv = Some InstalledNeedsPathSetup"
  by (simp add: statusOf_needsPath linux_probes linux_started)

lemma linux_regeneration: "reachesRegeneration linuxEnv"
  by (simp add: reachesRegeneration_def linux_probes linux_started)

lemma linux_paths:
  "binFolder linuxEnv = ''/storage/bin''"
  "wrapperPath linuxEnv = ''/storage/bin/compose''"
  "binaryPath linuxEnv = ''/storage/bin/docker-compose''"
  by (simp_all add: binFolder_def wrapperPath_def binaryPath_def linuxEnv_def)

lemma linux_advisory:
  "advisory linuxEnv =
     ''Please add the compose wrapper bin folder to your PATH environment variable. Value is /storage/bin. The script /storage/bin/compose will setup for you the DOCKER_HOST environment variable.''"
  by (simp add: advisory_def linuxEnv_def)

lemma runChecks_untouched:
  assumes "\<not> reachesRegeneration env"
  shows "fs (snd (runChecks env fc s)) = fs s \<and> calls (snd (runChecks env fc s)) = calls s"
  using assms
  by (cases rule: runChecks_cases[of env fc s]) (simp_all add: reachesRegeneration_def)

lemma runChecks_generate_calls:
  assumes "fst (runChecks env fc s) = Inr ()"
  shows "filter isGenerate (calls (snd (runChecks env fc s))) =
     filter isGenerate (calls s) @
       (if reachesRegeneration env
        then [Generate (hd (startedConnections env)) (wrapperPath env)] else [])"
proof (cases rule: runChecks_cases[of env fc s])
  case (onPath c cs s1)
  then show ?thesis using addComposeWrapper_done(3)[of env c "cleared s" s1]
    by (simp add: reachesRegeneration_def)
next
  case (needsPath c cs s1)
  then show ?thesis using addComposeWrapper_done(3)[of env c "cleared s" s1]
    by (simp add: reachesRegeneration_def)
qed (use assms in \<open>simp_all add: reachesRegeneration_def\<close>)

lemma linux_install_facts:
  "grabLatestsReleasesMetadata linuxEnv =
     Inr [\<lparr>id_release = ''v2'', label = ''2.0''\<rparr>, \<lparr>id_release = ''v1'', label = ''1.0''\<rparr>]"
  "showQuickPick linuxEnv rs = None"
  "getReleaseAssetId linuxEnv ''v2'' p a = Inr 2"
  "platform linuxEnv = ''linux''" "arch linuxEnv = ''x64''"
  "isLinux linuxEnv" "\<not> isWindows linuxEnv"
  by (simp_all add: linuxEnv_def)


lemma linux_select:
  "selectRelease linuxEnv [\<lparr>id_release = ''v2'', label = ''2.0''\<rparr>, \<lparr>id_release = ''v1'', label = ''1.0''\<rparr>]
     = Some \<lparr>id_release = ''v2'', label = ''2.0''\<rparr>"
  by (simp add: selectRelease_def linux_install_facts)

lemma probeFails_facts:
  "checkForDockerCompose probeFailsEnv = Inl ProbeError"
  by (simp add: probeFailsEnv_def)

lemma chmodFails_facts:
  "grabLatestsReleasesMetadata chmodFailsEnv = grabLatestsReleasesMetadata linuxEnv"
  "selectRelease chmodFailsEnv rs = selectRelease linuxEnv rs"
  "getReleaseAssetId chmodFailsEnv = getReleaseAssetId linuxEnv"
  "platform chmodFailsEnv = ''linux''" "arch chmodFailsEnv = ''x64''"
  "binaryPath chmodFailsEnv = ''/storage/bin/docker-compose''"
  "binFolder chmodFailsEnv = ''/storage/bin''"
  "download chmodFailsEnv a = Inr ''binary''"
  "chmod_fault chmodFailsEnv p = Some FilesystemError"
  "isLinux chmodFailsEnv"
  by (simp_all add: chmodFailsEnv_def selectRelease_def binaryPath_def binFolder_def linuxEnv_def)

lemma linux_os_facts:
  "download linuxEnv a = Inr ''binary''"
  "mkdir_fault linuxEnv p = None" "chmod_fault linuxEnv p = None"
  "newFileMode linuxEnv = 420" "newDirMode linuxEnv = 493"
  "\<not> isMac linuxEnv"
  by (simp_all add: linuxEnv_def)

lemma linux_install: "fst (installDockerCompose linuxEnv activated) = Inr ()"
  by (simp add: installDockerCompose_steps linux_install_facts linux_os_facts linux_select
        linux_paths ensureBinFolder_def existsSync_def mkdir_def asked_def Let_def
        downloadReleaseAsset_def makeExecutable_def chmod_def writeFile_def activated_def)

lemma reachableEnv_facts:
  "\<not> reachesRegeneration (linuxEnv\<lparr>checkDefaultSocketIsAlive := Inr True\<rparr>)"
  by (simp add: reachesRegeneration_def)

lemma windows_facts:
  "grabLatestsReleasesMetadata windowsEnv = grabLatestsReleasesMetadata linuxEnv"
  "selectRelease windowsEnv rs = selectRelease linuxEnv rs"
  "getReleaseAssetId windowsEnv = getReleaseAssetId linuxEnv"
  "platform windowsEnv = ''win32''" "arch windowsEnv = ''x64''"
  "binaryPath windowsEnv = ''/storage/bin/docker-compose.exe''"
  "binFolder windowsEnv = ''/storage/bin''"
  "download windowsEnv a = Inr ''binary''"
  "mkdir_fault windowsEnv p = None"
  "isWindows windowsEnv" "\<not> isLinux windowsEnv" "\<not> isMac windowsEnv"
  by (simp_all add: windowsEnv_def selectRelease_def binaryPath_def binFolder_def linuxEnv_def)

lemma windows_install: "fst (installDockerCompose windowsEnv activated) = Inr ()"
  by (simp add: installDockerCompose_steps windows_facts linux_install_facts linux_select
        ensureBinFolder_def existsSync_def mkdir_def asked_def Let_def
        downloadReleaseAsset_def makeExecutable_def writeFile_def activated_def)

lemma onPath_probes:
  "checkForDockerCompose linuxOnPathEnv = Inr True"
  "checkDefaultSocketIsAlive linuxOnPathEnv = Inr False"
  "checkStoragePath linuxOnPathEnv = Inr True"
  "startedConnections linuxOnPathEnv = startedConnections linuxEnv"
  "checkForDockerCompose windowsOnPathEnv = Inr True"
  "checkDefaultSocketIsAlive windowsOnPathEnv = Inr False"
  "checkStoragePath windowsOnPathEnv = Inr True"
  "startedConnections windowsOnPathEnv = startedConnections linuxEnv"
  by (simp_all add: linuxOnPathEnv_def windowsOnPathEnv_def windowsEnv_def linuxEnv_def
        startedConnections_def)

lemma onPath_paths:
  "wrapperPath linuxOnPathEnv = ''/storage/bin/compose''"
  "wrapperPath windowsOnPathEnv = ''/storage/bin/compose.bat''"
  "resolve linuxOnPathEnv = joinPath" "storagePath linuxOnPathEnv = ''/storage''"
  "\<not> isWindows linuxOnPathEnv"
  by (simp_all add: wrapperPath_def binFolder_def linuxOnPathEnv_def windowsOnPathEnv_def
        windowsEnv_def linuxEnv_def)

lemma linuxOnPath_wrapper:
  "fst (addComposeWrapper linuxOnPathEnv c (cleared activated)) = Inr ()"
  by (simp add: addComposeWrapper_def linuxOnPathEnv_def linuxEnv_def cleared_def activated_def
     existsSync_def mkdir_def generate_def makeExecutable_def chmod_def writeFile_def Let_def
     mode_0o755_def)

lemma linuxOnPath_cycle: "fst (runChecks linuxOnPathEnv fc activated) = Inr ()"
  using linuxOnPath_wrapper[of "\<lparr>name = ''podman'', socketPath = ''/run/podman.sock'', status = ''started''\<rparr>"]
  by (auto simp: runChecks_regenerate[OF onPath_probes(1) onPath_probes(2)
          onPath_probes(4)[unfolded linux_started]]
        onPath_probes finish_def split: prod.splits sum.splits)

lemma windowsOnPath_wrapper:
  "addComposeWrapper windowsOnPathEnv c (cleared activated) =
     (Inr (), activated
        \<lparr>fs := [''/storage/bin'' \<mapsto> \<lparr>kind = Directory, content = [], mode = 493\<rparr>,
                ''/storage/bin/compose.bat'' \<mapsto>
                   \<lparr>kind = RegularFile, content = ''DOCKER_HOST='' @ socketPath c, mode = 420\<rparr>],
         calls := [Mkdir ''/storage/bin'', Generate c ''/storage/bin/compose.bat'']\<rparr>)"
  by (simp add: addComposeWrapper_def windowsOnPathEnv_def windowsEnv_def linuxEnv_def cleared_def
     activated_def existsSync_def mkdir_def generate_def makeExecutable_def writeFile_def Let_def)

lemma windowsOnPath_cycle:
  "runChecks windowsOnPathEnv False activated =
     (Inr (), activated
        \<lparr>statusBarItem := Some \<lparr>iconClass = ''fa fa-check'',
             tooltip = ''Compose is installed and usable with /storage/bin/compose'',
             command = ''compose.checks'', itemText = ''Compose''\<rparr>,
         fs := [''/storage/bin'' \<mapsto> \<lparr>kind = Directory, content = [], mode = 493\<rparr>,
                ''/storage/bin/compose.bat'' \<mapsto>
                   \<lparr>kind = RegularFile, content = ''DOCKER_HOST=/run/podman.sock'', mode = 420\<rparr>],
         calls := [Mkdir ''/storage/bin'',
                   Generate \<lparr>name = ''podman'', socketPath = ''/run/podman.sock'', status = ''started''\<rparr>
                     ''/storage/bin/compose.bat'']\<rparr>)"
  by (simp add: runChecks_regenerate[OF onPath_probes(5) onPath_probes(6)
          onPath_probes(8)[unfolded linux_started]] windowsOnPath_wrapper onPath_probes finish_def
        notifyOnChecks_def applyStatusBarChanges_def)
     (simp add: activated_def createdItem_def usableTooltip_def ICON_CHECK_def
        COMPOSE_CHECKS_COMMAND_def windowsOnPathEnv_def windowsEnv_def linuxEnv_def)

section \<open>The check cycle\<close>

text \<open>
  C1, as the code has it. For every combination of the four detection inputs, a check
  cycle that completes pushes to the status bar item the presentation of the status that
  the specification's transition rules give, first match winning. \<open>NotInstalled\<close>:
  the download icon, the tooltip \<open>Install Compose\<close>, the install command. Compose with a
  reachable default socket: the check icon, the tooltip that says the socket is
  reachable. No started connection: the warning icon and the tooltip that says no
  container engine is running. A started connection with the bin folder on the path: the
  check icon and the tooltip \<open>Compose is installed and usable with\<close> followed by
  \<open>path.resolve\<close> of the storage path, \<open>bin\<close> and \<open>compose\<close>; where the OS probe does not
  say Windows (and \<open>path.resolve\<close> of a resolved folder and a name is \<open>path.resolve\<close> of all
  the segments, as Node's is) that path is the wrapper path. A started connection
  without the bin folder on the path: the warning icon and the tooltip that says the
  socket is not enabled. Every status but \<open>NotInstalled\<close> keeps the checks command, and
  \<open>InstalledNeedsWrapper\<close> is never the status.
\<close>

theorem runChecks_presentation:
  assumes item: "statusBarItem s = Some item"
    and hc: "checkForDockerCompose env = Inr hasCompose"
    and re: "checkDefaultSocketIsAlive env = Inr hasReachableDefaultSocket"
    and op: "checkStoragePath env = Inr hasWrapperOnPath"
    and run: "runChecks env firstCheck s = (Inr (), s')"
    and st: "st = transition hasCompose hasReachableDefaultSocket (startedConnections env \<noteq> []) hasWrapperOnPath"
  shows "\<exists>item'. statusBarItem s' = Some item' \<and> itemText item' = itemText item
     \<and> (st = NotInstalled \<longrightarrow>
            iconClass item' = ''fa fa-download'' \<and> tooltip item' = ''Install Compose''
            \<and> command item' = ''compose.install'')
     \<and> (st = InstalledAndReachable \<longrightarrow>
            iconClass item' = ''fa fa-check'' \<and> command item' = ''compose.checks''
            \<and> (hasReachableDefaultSocket \<longrightarrow>
                  tooltip item' = ''Compose is installed and DOCKER_HOST is reachable'')
            \<and> (\<not> hasReachableDefaultSocket \<longrightarrow>
                  tooltip item' = ''Compose is installed and usable with ''
                                   @ resolve env [storagePath env, ''bin'', ''compose''])
            \<and> (\<not> hasReachableDefaultSocket \<and> \<not> isWindows env
                 \<and> resolve env [resolve env [storagePath env, ''bin''], ''compose'']
                     = resolve env [storagePath env, ''bin'', ''compose'']
                 \<longrightarrow> tooltip item' = ''Compose is installed and usable with '' @ wrapperPath env))
     \<and> (st = NoRunningEngine \<longrightarrow>
            iconClass item' = ''fa fa-exclamation-triangle''
            \<and> tooltip item' = ''No running container engine. Unable to write a compose wrapper script that will set DOCKER_HOST in that case. Please start a container engine first.''
            \<and> command item' = ''compose.checks'')
     \<and> (st = InstalledNeedsPathSetup \<longrightarrow>
            iconClass item' = ''fa fa-exclamation-triangle''
            \<and> tooltip item' = getSocketPath env @ '' is not enabled. Need to use wrapper script''
            \<and> command item' = ''compose.checks'')
     \<and> st \<noteq> InstalledNeedsWrapper"
proof -
  have s': "s' = snd (runChecks env firstCheck s)" and ok: "fst (runChecks env firstCheck s) = Inr ()"
    using run by simp_all
  note texts = ICON_CHECK_def ICON_DOWNLOAD_def ICON_WARNING_def COMPOSE_CHECKS_COMMAND_def
    COMPOSE_INSTALL_COMMAND_def usableTooltip_def noEngineTooltip_def needsPathTooltip_def
    transition_def
  show ?thesis
  proof (cases rule: runChecks_cases[of env firstCheck s])
    case notInstalled
    then show ?thesis
      using hc st s' finish_item[of "cleared s" item] item by (simp add: texts)
  next
    case reachable
    then show ?thesis
      using hc re st s' finish_item[of "cleared s" item] item by (simp add: texts)
  next
    case noEngine
    then show ?thesis
      using hc re st s' finish_item[of "cleared s" item] item by (simp add: texts)
  next
    case (onPath c cs s1)
    then show ?thesis
      using hc re op st s' finish_item[of s1 item] item
        addComposeWrapper_frame[of env c "cleared s" "Inr ()" s1]
      by (simp add: texts wrapperPath_def binFolder_def)
  next
    case (needsPath c cs s1)
    then show ?thesis
      using hc re op st s' item
        finish_item[of "s1\<lparr>currentInformation := Some (advisory env)\<rparr>" item]
        addComposeWrapper_frame[of env c "cleared s" "Inr ()" s1]
      by (simp add: texts)
  qed (use ok hc re op in simp_all)
qed

theorem runChecks_presentation_witness:
  "(\<exists>item'. statusBarItem (snd (runChecks linuxOnPathEnv False activated)) = Some item'
      \<and> itemText item' = ''Compose'' \<and> iconClass item' = ''fa fa-check''
      \<and> tooltip item' = ''Compose is installed and usable with /storage/bin/compose''
      \<and> tooltip item' = ''Compose is installed and usable with '' @ wrapperPath linuxOnPathEnv
      \<and> command item' = ''compose.checks'')
   \<and> (\<exists>item'. statusBarItem (snd (runChecks linuxEnv False activated)) = Some item'
      \<and> itemText item' = ''Compose'' \<and> iconClass item' = ''fa fa-exclamation-triangle''
      \<and> tooltip item' = ''/var/run/docker.sock is not enabled. Need to use wrapper script''
      \<and> command item' = ''compose.checks'')"
proof -
  have run1: "runChecks linuxOnPathEnv False activated
      = (Inr (), snd (runChecks linuxOnPathEnv False activated))"
    using linuxOnPath_cycle[of False] by (cases "runChecks linuxOnPathEnv False activated") simp
  have st1: "InstalledAndReachable
      = transition True False (startedConnections linuxOnPathEnv \<noteq> []) True"
    by (simp add: transition_def onPath_probes linux_started)
  have run2: "runChecks linuxEnv False activated = (Inr (), snd (runChecks linuxEnv False activated))"
    using linux_cycle[of False] by (cases "runChecks linuxEnv False activated") simp
  have st2: "InstalledNeedsPathSetup = transition True False (startedConnections linuxEnv \<noteq> []) False"
    by (simp add: transition_def linux_started)
  have item: "statusBarItem activated = Some createdItem"
    by (simp add: activated_def)
  have one: "\<exists>item'. statusBarItem (snd (runChecks linuxOnPathEnv False activated)) = Some item'
      \<and> itemText item' = ''Compose'' \<and> iconClass item' = ''fa fa-check''
      \<and> tooltip item' = ''Compose is installed and usable with /storage/bin/compose''
      \<and> tooltip item' = ''Compose is installed and usable with '' @ wrapperPath linuxOnPathEnv
      \<and> command item' = ''compose.checks''"
    using runChecks_presentation[OF item onPath_probes(1) onPath_probes(2) onPath_probes(3) run1 st1]
    by (auto simp: onPath_paths createdItem_def)
  have two: "\<exists>item'. statusBarItem (snd (runChecks linuxEnv False activated)) = Some item'
      \<and> itemText item' = ''Compose'' \<and> iconClass item' = ''fa fa-exclamation-triangle''
      \<and> tooltip item' = ''/var/run/docker.sock is not enabled. Need to use wrapper script''
      \<and> command item' = ''compose.checks''"
    using runChecks_presentation[OF item linux_probes run2 st2]
    by (auto simp: createdItem_def linuxEnv_def)
  show ?thesis using one two by simp
qed

text \<open>
  C1 as stated fails on Windows. With compose installed, the default socket not
  reachable, a started connection and the bin folder on the path, the cycle writes the
  wrapper to \<open>compose.bat\<close> in the bin folder, and the tooltip names \<open>compose\<close> in the bin
  folder, a path at which nothing is.
\<close>

theorem tooltip_names_another_path_counterexample:
  "statusOf windowsOnPathEnv = Some InstalledAndReachable
   \<and> fst (runChecks windowsOnPathEnv False activated) = Inr ()
   \<and> statusBarItem (snd (runChecks windowsOnPathEnv False activated)) =
        Some \<lparr>iconClass = ''fa fa-check'',
              tooltip = ''Compose is installed and usable with /storage/bin/compose'',
              command = ''compose.checks'', itemText = ''Compose''\<rparr>
   \<and> wrapperPath windowsOnPathEnv = ''/storage/bin/compose.bat''
   \<and> isFile (fs (snd (runChecks windowsOnPathEnv False activated))) ''/storage/bin/compose.bat''
   \<and> fs (snd (runChecks windowsOnPathEnv False activated)) ''/storage/bin/compose'' = None"
  by (simp add: windowsOnPath_cycle onPath_paths statusOf_def onPath_probes linux_started
        transition_def isFile_def)

text \<open>
  C4. A cycle called with the first-check flag set shows no message, whatever the status
  and whatever the collaborators do. A cycle called with the flag unset that completes
  with status \<open>InstalledNeedsPathSetup\<close> shows the advisory exactly once: the messages
  after it are the messages before it followed by the advisory.
\<close>

theorem advisory_not_on_first_check:
  "messages (snd (runChecks env True s)) = messages s
   \<and> (fst (runChecks env False s) = Inr () \<and> statusOf env = Some InstalledNeedsPathSetup
        \<longrightarrow> messages (snd (runChecks env False s)) = messages s @ [advisory env])"
  by (simp add: runChecks_messages)

theorem advisory_not_on_first_check_witness:
  "messages (snd (runChecks linuxEnv True activated)) = []
   \<and> messages (snd (runChecks linuxEnv False activated)) =
       [''Please add the compose wrapper bin folder to your PATH environment variable. Value is /storage/bin. The script /storage/bin/compose will setup for you the DOCKER_HOST environment variable.'']"
  using advisory_not_on_first_check[of linuxEnv activated] linux_cycle[of False] linux_status
  by (simp add: linux_advisory) (simp add: activated_def)

text \<open>
  C5. The advisory message is cleared at the start of a cycle: whatever it was before,
  the cycle runs the same. At the end of the cycle it is set, to the advisory text,
  exactly when the cycle completes with status \<open>InstalledNeedsPathSetup\<close>; in every other
  outcome, a raise included, it is absent.
\<close>

theorem currentInformation_set_iff_needs_path_setup:
  "runChecks env firstCheck (s\<lparr>currentInformation := old\<rparr>) = runChecks env firstCheck s
   \<and> currentInformation (snd (runChecks env firstCheck s)) =
       (if fst (runChecks env firstCheck s) = Inr () \<and> statusOf env = Some InstalledNeedsPathSetup
        then Some (advisory env) else None)"
proof -
  have "runChecks env firstCheck (s\<lparr>currentInformation := old\<rparr>) = runChecks env firstCheck s"
    by (simp add: runChecks_def)
  then show ?thesis using runChecks_information[of env firstCheck s] by simp
qed

theorem currentInformation_set_iff_needs_path_setup_witness:
  "currentInformation (snd (runChecks linuxEnv False (activated\<lparr>currentInformation := Some ''old''\<rparr>)))
     = Some ''Please add the compose wrapper bin folder to your PATH environment variable. Value is /storage/bin. The script /storage/bin/compose will setup for you the DOCKER_HOST environment variable.''
   \<and> currentInformation (snd (runChecks (linuxEnv\<lparr>checkForDockerCompose := Inl ProbeError\<rparr>) False
         (activated\<lparr>currentInformation := Some ''old''\<rparr>))) = None"
  using currentInformation_set_iff_needs_path_setup[where env = linuxEnv and firstCheck = False
       and s = activated and old = "Some ''old''"]
    currentInformation_set_iff_needs_path_setup[where
       env = "linuxEnv\<lparr>checkForDockerCompose := Inl ProbeError\<rparr>" and firstCheck = False
       and s = "activated\<lparr>currentInformation := Some ''old''\<rparr>" and old = None]
    linux_cycle[of False] linux_status
  by (simp add: linux_advisory statusOf_needsPath)

text \<open>
  C6. A cycle that does not reach the regeneration branch (compose is missing, or the
  default socket is reachable, or no connection is started, or a probe before the branch
  raises) leaves the filesystem as it was and calls no collaborator that writes. A cycle
  that completes calls the wrapper generator exactly when it reaches the regeneration
  branch, once, for the first started connection and the wrapper path.
\<close>

theorem wrapper_written_iff_regeneration:
  "(\<not> reachesRegeneration env \<longrightarrow>
      fs (snd (runChecks env firstCheck s)) = fs s
      \<and> calls (snd (runChecks env firstCheck s)) = calls s)
   \<and> (fst (runChecks env firstCheck s) = Inr () \<longrightarrow>
        filter isGenerate (calls (snd (runChecks env firstCheck s))) =
          filter isGenerate (calls s) @
            (if reachesRegeneration env
             then [Generate (hd (startedConnections env)) (wrapperPath env)] else []))"
  using runChecks_untouched[of env firstCheck s] runChecks_generate_calls[of env firstCheck s]
  by blast

theorem wrapper_written_iff_regeneration_witness:
  "fs (snd (runChecks (linuxEnv\<lparr>checkDefaultSocketIsAlive := Inr True\<rparr>) False activated)) = Map.empty
   \<and> calls (snd (runChecks (linuxEnv\<lparr>checkDefaultSocketIsAlive := Inr True\<rparr>) False activated)) = []
   \<and> filter isGenerate (calls (snd (runChecks linuxEnv False activated))) =
       [Generate \<lparr>name = ''podman'', socketPath = ''/run/podman.sock'', status = ''started''\<rparr>
          ''/storage/bin/compose'']"
  using wrapper_written_iff_regeneration[of "linuxEnv\<lparr>checkDefaultSocketIsAlive := Inr True\<rparr>"
          False activated]
    wrapper_written_iff_regeneration[of linuxEnv False activated]
    reachableEnv_facts linux_regeneration linux_cycle[of False]
  by (simp add: linux_started linux_paths) (simp add: activated_def)

text \<open>
  C10. On Linux and on Mac, a cycle that reaches the regeneration branch and completes
  leaves a regular file at the wrapper path (\<open>compose\<close>, or \<open>compose.bat\<close> where the OS probe
  says Windows) with mode \<open>0o755\<close>, set by the \<open>chmod\<close> that \<open>makeExecutable\<close> issues for the
  wrapper path.
\<close>

theorem wrapper_made_executable:
  assumes "isLinux env \<or> isMac env"
    and "reachesRegeneration env"
    and "fst (runChecks env firstCheck s) = Inr ()"
  shows "isFile (fs (snd (runChecks env firstCheck s))) (wrapperPath env)
     \<and> modeAt (fs (snd (runChecks env firstCheck s))) (wrapperPath env) = Some mode_0o755
     \<and> Chmod (wrapperPath env) mode_0o755 \<in> set (calls (snd (runChecks env firstCheck s)))"
proof (cases rule: runChecks_cases[of env firstCheck s])
  case (onPath c cs s1)
  then show ?thesis using addComposeWrapper_done[of env c "cleared s" s1] assms(1) by simp
next
  case (needsPath c cs s1)
  then show ?thesis using addComposeWrapper_done[of env c "cleared s" s1] assms(1) by simp
qed (use assms in \<open>simp_all add: reachesRegeneration_def\<close>)

theorem wrapper_made_executable_witness:
  "isFile (fs (snd (runChecks linuxEnv False activated))) ''/storage/bin/compose''
   \<and> modeAt (fs (snd (runChecks linuxEnv False activated))) ''/storage/bin/compose'' = Some 493
   \<and> Chmod ''/storage/bin/compose'' 493 \<in> set (calls (snd (runChecks linuxEnv False activated)))"
proof -
  have os: "isLinux linuxEnv \<or> isMac linuxEnv" by (simp add: linuxEnv_def)
  show ?thesis
    using wrapper_made_executable[OF os linux_regeneration linux_cycle[of False]]
    by (simp add: linux_paths mode_0o755_def)
qed

section \<open>The install flow\<close>



section \<open>Failures\<close>

text \<open>
  C3, as the code has it. Neither method has a \<open>try\<close>. In a check cycle, a failure of
  \<open>checkForDockerCompose\<close>, of \<open>checkDefaultSocketIsAlive\<close>, of the wrapper generation or of
  \<open>checkStoragePath\<close>, when the cycle comes to it, is the failure of \<open>runChecks\<close>; a cycle that
  raises pushes nothing: the status bar item is as before, no message is shown and the
  advisory message is absent. In the install flow, a flow completes only if the listing,
  the selection, the asset resolution, the bin folder, the download and \<open>makeExecutable\<close>
  all succeeded. A flow that raises shows no message and leaves the status bar item and
  the advisory message as they were; it leaves every path other than the bin folder and
  the binary path as it was, and every entry that was there before, the wrapper
  included, unchanged, the binary alone excepted; and the binary too is unchanged
  unless the download had succeeded and it is \<open>makeExecutable\<close> that raised. When the
  listing, the selection, the asset resolution or the creation of the bin folder fails,
  the filesystem is unchanged; when the download fails, it is as it was when the
  download began.
\<close>

theorem failures_propagate:
  "(fst (runChecks env firstCheck s) = Inl e \<longrightarrow>
      statusBarItem (snd (runChecks env firstCheck s)) = statusBarItem s
      \<and> messages (snd (runChecks env firstCheck s)) = messages s
      \<and> currentInformation (snd (runChecks env firstCheck s)) = None)
   \<and> (checkForDockerCompose env = Inl e \<longrightarrow> fst (runChecks env firstCheck s) = Inl e)
   \<and> (checkForDockerCompose env = Inr True \<and> checkDefaultSocketIsAlive env = Inl e
        \<longrightarrow> fst (runChecks env firstCheck s) = Inl e)
   \<and> (reachesRegeneration env
        \<and> fst (addComposeWrapper env (hd (startedConnections env)) (cleared s)) = Inl e
        \<longrightarrow> fst (runChecks env firstCheck s) = Inl e)
   \<and> (reachesRegeneration env
        \<and> fst (addComposeWrapper env (hd (startedConnections env)) (cleared s)) = Inr ()
        \<and> checkStoragePath env = Inl e
        \<longrightarrow> fst (runChecks env firstCheck s) = Inl e)
   \<and> (fst (installDockerCompose env s) = Inl e \<longrightarrow>
        statusBarItem (snd (installDockerCompose env s)) = statusBarItem s
        \<and> messages (snd (installDockerCompose env s)) = messages s
        \<and> currentInformation (snd (installDockerCompose env s)) = currentInformation s)
   \<and> (fst (installDockerCompose env s) = Inr () \<longrightarrow>
        (\<exists>releases r a s2 s3 s4.
            grabLatestsReleasesMetadata env = Inr releases
            \<and> selectRelease env releases = Some r
            \<and> getReleaseAssetId env (id_release r) (platform env) (arch env) = Inr a
            \<and> ensureBinFolder env (asked env r s) = (Inr (), s2)
            \<and> downloadReleaseAsset env a (binaryPath env) s2 = (Inr (), s3)
            \<and> makeExecutable env (binaryPath env) s3 = (Inr (), s4)))
   \<and> (fst (installDockerCompose env s) = Inl e \<and> q \<noteq> binFolder env \<and> q \<noteq> binaryPath env
        \<longrightarrow> fs (snd (installDockerCompose env s)) q = fs s q)
   \<and> (fst (installDockerCompose env s) = Inl e \<and> q \<noteq> binaryPath env \<and> fs s q = Some old
        \<longrightarrow> fs (snd (installDockerCompose env s)) q = Some old)
   \<and> (fst (installDockerCompose env s) = Inl e \<and> wrapperPath env \<noteq> binaryPath env
        \<and> fs s (wrapperPath env) = Some wrapper
        \<longrightarrow> fs (snd (installDockerCompose env s)) (wrapperPath env) = Some wrapper)
   \<and> (fst (installDockerCompose env s) = Inl e \<longrightarrow>
        (\<forall>p before. fs s p = Some before
            \<longrightarrow> fs (snd (installDockerCompose env s)) p = Some before)
        \<or> (\<exists>releases r a s2 s3.
              grabLatestsReleasesMetadata env = Inr releases
              \<and> selectRelease env releases = Some r
              \<and> getReleaseAssetId env (id_release r) (platform env) (arch env) = Inr a
              \<and> ensureBinFolder env (asked env r s) = (Inr (), s2)
              \<and> downloadReleaseAsset env a (binaryPath env) s2 = (Inr (), s3)
              \<and> fst (makeExecutable env (binaryPath env) s3) = Inl e))
   \<and> (grabLatestsReleasesMetadata env = Inl e \<longrightarrow> installDockerCompose env s = (Inl e, s))
   \<and> (grabLatestsReleasesMetadata env = Inr releases \<and> selectRelease env releases = None
        \<longrightarrow> installDockerCompose env s = (Inl TypeError, s))
   \<and> (grabLatestsReleasesMetadata env = Inr releases \<and> selectRelease env releases = Some r
        \<and> getReleaseAssetId env (id_release r) (platform env) (arch env) = Inl e
        \<longrightarrow> fst (installDockerCompose env s) = Inl e
            \<and> fs (snd (installDockerCompose env s)) = fs s)
   \<and> (grabLatestsReleasesMetadata env = Inr releases \<and> selectRelease env releases = Some r
        \<and> getReleaseAssetId env (id_release r) (platform env) (arch env) = Inr a
        \<and> fst (ensureBinFolder env (asked env r s)) = Inl e
        \<longrightarrow> fst (installDockerCompose env s) = Inl e
            \<and> fs (snd (installDockerCompose env s)) = fs s)
   \<and> (grabLatestsReleasesMetadata env = Inr releases \<and> selectRelease env releases = Some r
        \<and> getReleaseAssetId env (id_release r) (platform env) (arch env) = Inr a
        \<and> ensureBinFolder env (asked env r s) = (Inr (), s2)
        \<and> download env a = Inl e
        \<longrightarrow> fst (installDockerCompose env s) = Inl e
            \<and> fs (snd (installDockerCompose env s)) = fs s2)"
proof -
  have run: "fst (runChecks env firstCheck s) = Inl e \<longrightarrow>
      statusBarItem (snd (runChecks env firstCheck s)) = statusBarItem s
      \<and> messages (snd (runChecks env firstCheck s)) = messages s
      \<and> currentInformation (snd (runChecks env firstCheck s)) = None"
    using runChecks_item_when_raising[of env firstCheck s e] by simp
  have inst: "fst (installDockerCompose env s) = Inl e \<longrightarrow>
        statusBarItem (snd (installDockerCompose env s)) = statusBarItem s
        \<and> messages (snd (installDockerCompose env s)) = messages s
        \<and> currentInformation (snd (installDockerCompose env s)) = currentInformation s"
    using installDockerCompose_raising[of env s e] by simp
  have comp: "fst (installDockerCompose env s) = Inr () \<longrightarrow>
        (\<exists>releases r a s2 s3 s4.
            grabLatestsReleasesMetadata env = Inr releases
            \<and> selectRelease env releases = Some r
            \<and> getReleaseAssetId env (id_release r) (platform env) (arch env) = Inr a
            \<and> ensureBinFolder env (asked env r s) = (Inr (), s2)
            \<and> downloadReleaseAsset env a (binaryPath env) s2 = (Inr (), s3)
            \<and> makeExecutable env (binaryPath env) s3 = (Inr (), s4))"
  proof
    assume "fst (installDockerCompose env s) = Inr ()"
    then show "\<exists>releases r a s2 s3 s4.
            grabLatestsReleasesMetadata env = Inr releases
            \<and> selectRelease env releases = Some r
            \<and> getReleaseAssetId env (id_release r) (platform env) (arch env) = Inr a
            \<and> ensureBinFolder env (asked env r s) = (Inr (), s2)
            \<and> downloadReleaseAsset env a (binaryPath env) s2 = (Inr (), s3)
            \<and> makeExecutable env (binaryPath env) s3 = (Inr (), s4)"
      by (rule installDockerCompose_completes) blast
  qed
  have files: "(fst (installDockerCompose env s) = Inl e \<and> q \<noteq> binFolder env \<and> q \<noteq> binaryPath env
        \<longrightarrow> fs (snd (installDockerCompose env s)) q = fs s q)
   \<and> (fst (installDockerCompose env s) = Inl e \<and> q \<noteq> binaryPath env \<and> fs s q = Some old
        \<longrightarrow> fs (snd (installDockerCompose env s)) q = Some old)
   \<and> (fst (installDockerCompose env s) = Inl e \<and> wrapperPath env \<noteq> binaryPath env
        \<and> fs s (wrapperPath env) = Some wrapper
        \<longrightarrow> fs (snd (installDockerCompose env s)) (wrapperPath env) = Some wrapper)"
    using installDockerCompose_raising_files(1)[of env s e q]
      installDockerCompose_raising_files(2)[of env s e q old]
      installDockerCompose_raising_files(2)[of env s e "wrapperPath env" wrapper]
    by blast
  have binary: "fst (installDockerCompose env s) = Inl e \<longrightarrow>
        (\<forall>p before. fs s p = Some before
            \<longrightarrow> fs (snd (installDockerCompose env s)) p = Some before)
        \<or> (\<exists>releases r a s2 s3.
              grabLatestsReleasesMetadata env = Inr releases
              \<and> selectRelease env releases = Some r
              \<and> getReleaseAssetId env (id_release r) (platform env) (arch env) = Inr a
              \<and> ensureBinFolder env (asked env r s) = (Inr (), s2)
              \<and> downloadReleaseAsset env a (binaryPath env) s2 = (Inr (), s3)
              \<and> fst (makeExecutable env (binaryPath env) s3) = Inl e)"
    using installDockerCompose_raising_binary[of env s e] by blast
  have early: "(grabLatestsReleasesMetadata env = Inl e \<longrightarrow> installDockerCompose env s = (Inl e, s))
   \<and> (grabLatestsReleasesMetadata env = Inr releases \<and> selectRelease env releases = None
        \<longrightarrow> installDockerCompose env s = (Inl TypeError, s))
   \<and> (grabLatestsReleasesMetadata env = Inr releases \<and> selectRelease env releases = Some r
        \<and> getReleaseAssetId env (id_release r) (platform env) (arch env) = Inl e
        \<longrightarrow> fst (installDockerCompose env s) = Inl e
            \<and> fs (snd (installDockerCompose env s)) = fs s)"
    by (simp add: installDockerCompose_steps)
  have folder: "grabLatestsReleasesMetadata env = Inr releases \<and> selectRelease env releases = Some r
        \<and> getReleaseAssetId env (id_release r) (platform env) (arch env) = Inr a
        \<and> fst (ensureBinFolder env (asked env r s)) = Inl e
        \<longrightarrow> fst (installDockerCompose env s) = Inl e
            \<and> fs (snd (installDockerCompose env s)) = fs s"
  proof (intro impI, elim conjE)
    assume g: "grabLatestsReleasesMetadata env = Inr releases"
      and sel: "selectRelease env releases = Some r"
      and res: "getReleaseAssetId env (id_release r) (platform env) (arch env) = Inr a"
      and f: "fst (ensureBinFolder env (asked env r s)) = Inl e"
    obtain s2 where e2: "ensureBinFolder env (asked env r s) = (Inl e, s2)"
      using f by (cases "ensureBinFolder env (asked env r s)") simp
    have "installDockerCompose env s = (Inl e, s2)"
      using g sel res e2 by (simp add: installDockerCompose_steps asked_def)
    then show "fst (installDockerCompose env s) = Inl e
            \<and> fs (snd (installDockerCompose env s)) = fs s"
      using ensureBinFolder_result(6)[OF e2, of e] by simp
  qed
  have down: "grabLatestsReleasesMetadata env = Inr releases \<and> selectRelease env releases = Some r
        \<and> getReleaseAssetId env (id_release r) (platform env) (arch env) = Inr a
        \<and> ensureBinFolder env (asked env r s) = (Inr (), s2)
        \<and> download env a = Inl e
        \<longrightarrow> fst (installDockerCompose env s) = Inl e
            \<and> fs (snd (installDockerCompose env s)) = fs s2"
    by (simp add: installDockerCompose_steps asked_def download_raises)
  show ?thesis
    using run runChecks_raises_iff[of env e firstCheck s] inst comp files binary early folder down
    by (elim conjE) (intro conjI, assumption+)
qed

theorem failures_propagate_witness:
  "fst (runChecks probeFailsEnv True installedBefore) = Inl ProbeError
   \<and> statusBarItem (snd (runChecks probeFailsEnv True installedBefore)) = Some createdItem
   \<and> messages (snd (runChecks probeFailsEnv True installedBefore)) = []
   \<and> installDockerCompose (linuxEnv\<lparr>grabLatestsReleasesMetadata := Inl NetworkError\<rparr>) installedBefore
       = (Inl NetworkError, installedBefore)"
  using failures_propagate[where env = probeFailsEnv and firstCheck = True
          and s = installedBefore and e = ProbeError]
    failures_propagate[where env = "linuxEnv\<lparr>grabLatestsReleasesMetadata := Inl NetworkError\<rparr>"
          and s = installedBefore and e = NetworkError]
  by (simp add: probeFails_facts) (simp add: installedBefore_def activated_def)

text \<open>
  C3 as stated fails. A probe that raises makes \<open>runChecks\<close> raise, and the status bar item
  keeps its icon, which is not the warning icon. And an install flow in which the
  download succeeds and \<open>chmod\<close> is refused raises after it has replaced the binary that
  was installed before.
\<close>

theorem failures_not_contained_counterexample:
  "fst (runChecks probeFailsEnv False activated) = Inl ProbeError
   \<and> statusBarItem (snd (runChecks probeFailsEnv False activated)) =
        Some \<lparr>iconClass = [], tooltip = [], command = ''compose.checks'', itemText = ''Compose''\<rparr>
   \<and> fst (installDockerCompose chmodFailsEnv installedBefore) = Inl FilesystemError
   \<and> fs installedBefore ''/storage/bin/docker-compose''
        = Some \<lparr>kind = RegularFile, content = ''old binary'', mode = 493\<rparr>
   \<and> fs (snd (installDockerCompose chmodFailsEnv installedBefore)) ''/storage/bin/docker-compose''
        = Some \<lparr>kind = RegularFile, content = ''binary'', mode = 493\<rparr>"
proof -
  have a: "installDockerCompose chmodFailsEnv installedBefore =
     (Inl FilesystemError,
      installedBefore\<lparr>calls := [GetReleaseAssetId ''v2'' ''linux'' ''x64'',
                           DownloadReleaseAsset 2 ''/storage/bin/docker-compose'',
                           Chmod ''/storage/bin/docker-compose'' 493],
                 fs := [''/storage/bin'' \<mapsto> \<lparr>kind = Directory, content = [], mode = 493\<rparr>,
                        ''/storage/bin/docker-compose'' \<mapsto>
                           \<lparr>kind = RegularFile, content = ''binary'', mode = 493\<rparr>]\<rparr>)"
    by (simp add: installDockerCompose_steps chmodFails_facts linux_install_facts linux_select
          ensureBinFolder_def existsSync_def asked_def Let_def downloadReleaseAsset_def
          makeExecutable_def chmod_def mode_0o755_def
          writeFile_def installedBefore_def activated_def)
  show ?thesis
    by (simp add: a runChecks_probe_raises[OF probeFails_facts])
       (simp add: installedBefore_def activated_def createdItem_def COMPOSE_CHECKS_COMMAND_def)
qed

section \<open>A completed install\<close>

text \<open>
  C7. When the release client lists at least one release and the user picks nothing, the
  release at index 0 is the one selected: its id is the one the asset id is asked for,
  with the platform and the architecture of the host; in a flow that completes, the asset
  id the release client returned for it is the one downloaded to the binary path, and the
  success notification, shown right after the messages that were there, is
  \<open>Docker Compose\<close>, the label of that release, \<open>installed\<close>.
\<close>

theorem default_release_is_most_recent:
  assumes "grabLatestsReleasesMetadata env = Inr (r # rs)"
    and "showQuickPick env (r # rs) = None"
    and "fst (installDockerCompose env s) = Inr ()"
  shows "selectRelease env (r # rs) = Some r
     \<and> GetReleaseAssetId (id_release r) (platform env) (arch env)
          \<in> set (calls (snd (installDockerCompose env s)))
     \<and> (\<exists>a. getReleaseAssetId env (id_release r) (platform env) (arch env) = Inr a
            \<and> DownloadReleaseAsset a (binaryPath env) \<in> set (calls (snd (installDockerCompose env s))))
     \<and> (\<exists>rest. messages (snd (installDockerCompose env s)) =
            messages s @ (''Docker Compose '' @ label r @ '' installed'') # rest)"
proof -
  have sel: "selectRelease env (r # rs) = Some r"
    using assms(2) by (simp add: selectRelease_def)
  obtain releases r' a s4 where
    g: "grabLatestsReleasesMetadata env = Inr releases"
    and sel': "selectRelease env releases = Some r'"
    and res: "getReleaseAssetId env (id_release r') (platform env) (arch env) = Inr a"
    and c1: "GetReleaseAssetId (id_release r') (platform env) (arch env) \<in> set (calls s4)"
    and c2: "DownloadReleaseAsset a (binaryPath env) \<in> set (calls s4)"
    and msg: "messages s4 = messages s"
    and eq: "installDockerCompose env s =
       (Inr (), snd (runChecks env False (s4\<lparr>messages := messages s4 @ [installedMessage r']\<rparr>)))"
    using assms(3) by (rule installDockerCompose_installed)
  have r': "r' = r" using g sel' assms(1) sel by simp
  let ?s5 = "s4\<lparr>messages := messages s4 @ [installedMessage r]\<rparr>"
  have fin: "snd (installDockerCompose env s) = snd (runChecks env False ?s5)"
    using eq r' by simp
  have k: "keeps env (binaryPath env) ?s5 (snd (runChecks env False ?s5))"
    by (rule runChecks_keeps)
  have m: "\<exists>rest. messages (snd (runChecks env False ?s5)) =
             messages s @ installedMessage r # rest"
    using runChecks_messages[of env False ?s5] msg by simp
  show ?thesis
    using sel res c1 c2 r' fin keepsD(4)[OF k] m
    by (auto simp: installedMessage_def)
qed

theorem default_release_is_most_recent_witness:
  "GetReleaseAssetId ''v2'' ''linux'' ''x64'' \<in> set (calls (snd (installDockerCompose linuxEnv activated)))
   \<and> DownloadReleaseAsset 2 ''/storage/bin/docker-compose''
        \<in> set (calls (snd (installDockerCompose linuxEnv activated)))
   \<and> (\<exists>rest. messages (snd (installDockerCompose linuxEnv activated)) =
          ''Docker Compose 2.0 installed'' # rest)"
  using default_release_is_most_recent[OF linux_install_facts(1) linux_install_facts(2) linux_install]
  by (simp add: linux_install_facts linux_paths) (simp add: activated_def)

text \<open>
  C8. After an install flow that completes, a regular file is at the binary path
  (\<open>docker-compose.exe\<close> in the bin folder where the OS probe says Windows,
  \<open>docker-compose\<close> otherwise). On Linux and on Mac its mode is \<open>0o755\<close> and the \<open>chmod\<close> for
  it was called; on any other host, Windows included, the flow and its re-check call no
  \<open>chmod\<close> at all.
\<close>

theorem installed_binary_is_executable:
  assumes "fst (installDockerCompose env s) = Inr ()"
  shows "isFile (fs (snd (installDockerCompose env s))) (binaryPath env)
     \<and> (isLinux env \<or> isMac env \<longrightarrow>
           modeAt (fs (snd (installDockerCompose env s))) (binaryPath env) = Some mode_0o755
           \<and> Chmod (binaryPath env) mode_0o755 \<in> set (calls (snd (installDockerCompose env s))))
     \<and> (\<not> (isLinux env \<or> isMac env) \<longrightarrow>
           filter isChmod (calls (snd (installDockerCompose env s))) = filter isChmod (calls s))"
proof (rule installDockerCompose_installed[OF assms, where q = "binaryPath env"])
  fix r :: release and s4 :: state
  let ?p = "binaryPath env"
  let ?s5 = "s4\<lparr>messages := messages s4 @ [installedMessage r]\<rparr>"
  assume k: "keeps env ?p (asked env r s) s4"
    and f: "isFile (fs s4) ?p"
    and m: "isLinux env \<or> isMac env \<Longrightarrow> modeAt (fs s4) ?p = Some mode_0o755"
    and ch: "isLinux env \<or> isMac env \<Longrightarrow> Chmod ?p mode_0o755 \<in> set (calls s4)"
    and eq: "installDockerCompose env s = (Inr (), snd (runChecks env False ?s5))"
  have fin: "snd (installDockerCompose env s) = snd (runChecks env False ?s5)"
    using eq by simp
  have k5: "keeps env ?p ?s5 (snd (runChecks env False ?s5))"
    by (rule runChecks_keeps)
  have there: "isFile (fs (snd (installDockerCompose env s))) ?p"
    using keepsD(1)[OF k5] f fin by simp
  have unix: "isLinux env \<or> isMac env \<longrightarrow>
           modeAt (fs (snd (installDockerCompose env s))) ?p = Some mode_0o755
           \<and> Chmod ?p mode_0o755 \<in> set (calls (snd (installDockerCompose env s)))"
    using keepsD(2)[OF k5] keepsD(4)[OF k5, of "Chmod ?p mode_0o755"] m ch fin by simp
  have other: "\<not> (isLinux env \<or> isMac env) \<longrightarrow>
           filter isChmod (calls (snd (installDockerCompose env s))) = filter isChmod (calls s)"
    using keepsD(3)[OF k5] keepsD(3)[OF k] fin by simp
  show ?thesis using there unix other by simp
qed

theorem installed_binary_is_executable_witness:
  "isFile (fs (snd (installDockerCompose linuxEnv activated))) ''/storage/bin/docker-compose''
   \<and> modeAt (fs (snd (installDockerCompose linuxEnv activated))) ''/storage/bin/docker-compose''
       = Some 493
   \<and> Chmod ''/storage/bin/docker-compose'' 493
        \<in> set (calls (snd (installDockerCompose linuxEnv activated)))
   \<and> isFile (fs (snd (installDockerCompose windowsEnv activated))) ''/storage/bin/docker-compose.exe''
   \<and> filter isChmod (calls (snd (installDockerCompose windowsEnv activated))) = []"
  using installed_binary_is_executable[OF linux_install]
    installed_binary_is_executable[OF windows_install]
  by (simp add: linux_paths linux_install_facts windows_facts mode_0o755_def)
     (simp add: activated_def)

text \<open>
  C9. When the release client returns the empty list and the user picks nothing,
  \<open>installDockerCompose\<close> raises a \<open>TypeError\<close> before it has called anything else: the state
  is unchanged. When the list has at least one release, a release is selected and the
  flow goes on to ask for its asset id.
\<close>

theorem empty_release_list_raises:
  "(grabLatestsReleasesMetadata env = Inr [] \<and> showQuickPick env [] = None
      \<longrightarrow> installDockerCompose env s = (Inl TypeError, s))
   \<and> (grabLatestsReleasesMetadata env = Inr (r # rs)
      \<longrightarrow> (\<exists>selected. selectRelease env (r # rs) = Some selected
             \<and> GetReleaseAssetId (id_release selected) (platform env) (arch env)
                  \<in> set (calls (snd (installDockerCompose env s)))))"
proof -
  have first: "grabLatestsReleasesMetadata env = Inr [] \<and> showQuickPick env [] = None
      \<longrightarrow> installDockerCompose env s = (Inl TypeError, s)"
    by (simp add: installDockerCompose_steps selectRelease_def)
  have second: "\<exists>selected. selectRelease env (r # rs) = Some selected
             \<and> GetReleaseAssetId (id_release selected) (platform env) (arch env)
                  \<in> set (calls (snd (installDockerCompose env s)))"
    if g: "grabLatestsReleasesMetadata env = Inr (r # rs)"
  proof -
    let ?c = "\<lambda>x. GetReleaseAssetId (id_release x) (platform env) (arch env)"
    obtain selected where sel: "selectRelease env (r # rs) = Some selected"
      by (cases "showQuickPick env (r # rs)") (simp_all add: selectRelease_def)
    have "?c selected \<in> set (calls (snd (installDockerCompose env s)))"
    proof (cases rule: installDockerCompose_cases[of env s])
      case (resolveRaises releases r' e)
      then show ?thesis using g sel by simp
    next
      case (mkdirRaises releases r' a e s2)
      then show ?thesis
        using g sel calls_kept(1)[OF mkdirRaises(4), of "?c r'"] by simp
    next
      case (downloadRaises releases r' a s2 e s3)
      then show ?thesis
        using g sel calls_kept(1)[OF downloadRaises(4), of "?c r'"]
          calls_kept(2)[OF downloadRaises(5), of "?c r'"] by simp
    next
      case (chmodRaises releases r' a s2 s3 e s4)
      then show ?thesis
        using g sel calls_kept(1)[OF chmodRaises(4), of "?c r'"]
          calls_kept(2)[OF chmodRaises(5), of "?c r'"]
          calls_kept(3)[OF chmodRaises(6), of "?c r'"] by simp
    next
      case (installed releases r' a s2 s3 s4)
      let ?s5 = "s4\<lparr>messages := messages s4 @ [installedMessage r']\<rparr>"
      have "?c r' \<in> set (calls ?s5)"
        using calls_kept(1)[OF installed(4), of "?c r'"]
          calls_kept(2)[OF installed(5), of "?c r'"]
          calls_kept(3)[OF installed(6), of "?c r'"] by simp
      then show ?thesis
        using installed g sel calls_kept(4)[of "?c r'" ?s5 env False] by simp
    qed (use g sel in simp_all)
    then show ?thesis using sel by blast
  qed
  show ?thesis using first second by blast
qed

theorem empty_release_list_raises_witness:
  "installDockerCompose (linuxEnv\<lparr>grabLatestsReleasesMetadata := Inr []\<rparr>) activated
     = (Inl TypeError, activated)
   \<and> GetReleaseAssetId ''v2'' ''linux'' ''x64''
        \<in> set (calls (snd (installDockerCompose linuxEnv activated)))"
  using empty_release_list_raises[where env = "linuxEnv\<lparr>grabLatestsReleasesMetadata := Inr []\<rparr>"
          and s = activated]
    empty_release_list_raises[where env = linuxEnv and s = activated
          and r = "\<lparr>id_release = ''v2'', label = ''2.0''\<rparr>"
          and rs = "[\<lparr>id_release = ''v1'', label = ''1.0''\<rparr>]"]
  by (simp add: linux_install_facts linux_select)

end
